theory Spec2Isabelle
  imports Complex_Main "HOL-Library.Word" "HOL-Library.Multiset"
begin

section \<open>Errors of the driver\<close>

text \<open>
  The Go structs \<open>ErrorLocation\<close>, \<open>ErrorInfo\<close>, \<open>FailureInfo\<close> and \<open>ErrTrino\<close>
  (the JSON error object of a query response). Go's \<open>int\<close> is modelled as \<open>int\<close>.
  \<open>FailureInfo\<close> is recursive (\<open>Cause\<close>, \<open>Suppressed\<close>); its fields are, in order:
  Type, Message, Cause, Suppressed, Stack, ErrorInfo, ErrorLocation.
\<close>

record ErrorLocation =
  LineNumber :: int
  ColumnNumber :: int

record ErrorInfo =
  Code :: int
  Name :: string
  Type :: string

datatype FailureInfo =
  MkFailureInfo string string "FailureInfo option" "FailureInfo list" "string list"
    ErrorInfo ErrorLocation

record ErrTrino =
  Message :: string
  SqlState :: string
  ErrorCode :: int
  ErrorName :: string
  ErrorType :: string
  ErrorLocation :: ErrorLocation
  FailureInfo :: FailureInfo

text \<open>
  The \<open>Reason\<close> of an \<open>ErrQueryFailed\<close> is an arbitrary Go \<open>error\<close>: the structured server
  error (\<open>&respErr\<close>), the cause of a failed round trip, or the truncated response body.
\<close>

datatype reason =
  ReasonTrino ErrTrino
| ReasonCause string
| ReasonBody string

text \<open>
  Every error value the modelled functions return. Errors built with \<open>fmt.Errorf\<close> are
  constructors that carry the values the message is formatted from; a Go runtime panic is
  the constructor \<open>Panic\<close>.
\<close>

datatype error =
  ErrQueryCancelled
| ErrQueryFailed int reason
| ErrUnsupportedHeader
| ErrInvalidResponseType
| ContextError string
| SpoolingWorkerGreaterThanMaxOutOfOrder int int
| AtoiError string
| SegmentSizeMismatch int nat
| DecompressedSizeMismatch int nat
| UnsupportedSegmentEncoder string
| ZstdReaderError string
| ZstdDecompressError int string
| Lz4DecompressError int string
| JsonDecodeError int string
| AllOutOfOrderSegmentsBuffered nat int
| Panic string

section \<open>Server-reported errors\<close>

text \<open>
  \<open>handleResponseError(status, respErr)\<close>: a switch on \<open>respErr.ErrorName\<close>. The Go
  result \<open>nil\<close> is \<open>None\<close>.
\<close>

definition handleResponseError :: "int \<Rightarrow> ErrTrino \<Rightarrow> error option" where
  "handleResponseError status respErr =
     (if ErrorName respErr = '''' then None
      else if ErrorName respErr = ''USER_CANCELLED'' then Some ErrQueryCancelled
      else Some (ErrQueryFailed status (ReasonTrino respErr)))"

section \<open>Codec layer\<close>

type_synonym byte = "8 word"

text \<open>
  \<open>segmentMetadata\<close>: four \<open>int64\<close> fields, parsed from JSON numbers, so any of them can
  be negative. They are only compared and used as sizes here, hence \<open>int\<close>.
\<close>

record segmentMetadata =
  rowOffset :: int
  rowsCount :: int
  segmentSize :: int
  uncompressedSize :: int

text \<open>
  The compression and JSON libraries are not part of the repository; they are parameters
  of the model.
  \<^item> \<open>zstd\<close> stands for \<open>zstd.NewReader\<close> followed by \<open>io.ReadAll\<close>: creating the reader
    fails, reading fails, or all decompressed bytes are returned.
  \<^item> \<open>lz4\<close> stands for \<open>lz4.UncompressBlock(data, dst)\<close> with \<open>dst\<close> of the given
    length: an error, or the count \<open>n\<close> it reports together with the contents of \<open>dst\<close>
    after the call.
  \<^item> \<open>json\<close> stands for \<open>json.Decoder.Decode\<close> into a \<open>[]queryData\<close>: an error, or the
    decoded rows.
\<close>

datatype zstd_result =
  ZstdNewReaderFails string
| ZstdReadAllFails string
| ZstdData "byte list"

type_synonym zstd_lib = "byte list \<Rightarrow> zstd_result"
type_synonym lz4_lib = "byte list \<Rightarrow> nat \<Rightarrow> string + (int \<times> byte list)"
type_synonym 'row json_lib = "byte list \<Rightarrow> string + 'row list"

text \<open>
  \<open>decompressSegment(data, encoding, metadata)\<close>. The early return on
  \<open>uncompressedSize == 0\<close> comes before the switch on the encoding.
  \<open>make([]byte, n)\<close> panics for a negative \<open>n\<close>, and \<open>decompressedData[:n]\<close> panics
  unless \<open>0 \<le> n \<le> cap\<close>.
\<close>

definition decompressSegment ::
  "zstd_lib \<Rightarrow> lz4_lib \<Rightarrow> byte list \<Rightarrow> string \<Rightarrow> segmentMetadata \<Rightarrow> error + byte list" where
  "decompressSegment zstd lz4 data encoding metadata =
     (if uncompressedSize metadata = 0 then Inr data
      else
        (case
           (if encoding = ''json+zstd'' then
              (case zstd data of
                 ZstdNewReaderFails e \<Rightarrow> Inl (ZstdReaderError e)
               | ZstdReadAllFails e \<Rightarrow>
                   Inl (ZstdDecompressError (segmentMetadata.rowOffset metadata) e)
               | ZstdData out \<Rightarrow> Inr out)
            else if encoding = ''json+lz4'' then
              (if uncompressedSize metadata < 0 then Inl (Panic ''makeslice: len out of range'')
               else
                 (case lz4 data (nat (uncompressedSize metadata)) of
                    Inl e \<Rightarrow> Inl (Lz4DecompressError (segmentMetadata.rowOffset metadata) e)
                  | Inr (n, dst) \<Rightarrow>
                      if 0 \<le> n \<and> n \<le> uncompressedSize metadata then Inr (take (nat n) dst)
                      else Inl (Panic ''slice bounds out of range'')))
            else Inl (UnsupportedSegmentEncoder encoding))
         of
           Inl e \<Rightarrow> Inl e
         | Inr decompressedData \<Rightarrow>
             if int (length decompressedData) \<noteq> uncompressedSize metadata
             then Inl (DecompressedSizeMismatch (uncompressedSize metadata)
                         (length decompressedData))
             else Inr decompressedData))"

text \<open>
  \<open>decodeSegment(data, encoding, metadata)\<close>: the raw size check, decompression, the
  allocation \<open>make([]queryData, metadata.rowsCount)\<close> (a panic for a negative count), then
  JSON decoding, which replaces the allocated slice by the decoded rows.
\<close>

definition decodeSegment ::
  "zstd_lib \<Rightarrow> lz4_lib \<Rightarrow> 'row json_lib \<Rightarrow> byte list \<Rightarrow> string \<Rightarrow> segmentMetadata
     \<Rightarrow> error + 'row list" where
  "decodeSegment zstd lz4 json data encoding metadata =
     (if int (length data) \<noteq> segmentSize metadata
      then Inl (SegmentSizeMismatch (segmentSize metadata) (length data))
      else
        (case decompressSegment zstd lz4 data encoding metadata of
           Inl err \<Rightarrow> Inl err
         | Inr decompressedSegment \<Rightarrow>
             if rowsCount metadata < 0 then Inl (Panic ''makeslice: len out of range'')
             else
               (case json decompressedSegment of
                  Inl e \<Rightarrow> Inl (JsonDecodeError (segmentMetadata.rowOffset metadata) e)
                | Inr queryDataList \<Rightarrow> Inr queryDataList)))"

text \<open>The two size-mismatch errors of the codec layer.\<close>

fun is_size_mismatch :: "error \<Rightarrow> bool" where
  "is_size_mismatch (SegmentSizeMismatch _ _) = True"
| "is_size_mismatch (DecompressedSizeMismatch _ _) = True"
| "is_size_mismatch _ = False"

text \<open>
  The bytes the decompression library hands back for a compressed encoding, when it
  succeeds: what \<open>len(decompressedData)\<close> is measured on.
\<close>

definition decompressed_bytes ::
  "zstd_lib \<Rightarrow> lz4_lib \<Rightarrow> byte list \<Rightarrow> string \<Rightarrow> segmentMetadata \<Rightarrow> byte list option" where
  "decompressed_bytes zstd lz4 data encoding metadata =
     (if encoding = ''json+zstd'' then
        (case zstd data of ZstdData out \<Rightarrow> Some out | _ \<Rightarrow> None)
      else if encoding = ''json+lz4'' \<and> 0 \<le> uncompressedSize metadata then
        (case lz4 data (nat (uncompressedSize metadata)) of
           Inr (n, dst) \<Rightarrow>
             if 0 \<le> n \<and> n \<le> uncompressedSize metadata then Some (take (nat n) dst) else None
         | Inl _ \<Rightarrow> None)
      else None)"

section \<open>Type signatures and the converter factory\<close>

text \<open>
  \<open>typeKind\<close> is a Go string type; the four named kinds are constants of it, and a
  response may carry any other string.
\<close>

type_synonym typeKind = string

definition KIND_TYPE :: typeKind where "KIND_TYPE = ''TYPE''"
definition KIND_NAMED_TYPE :: typeKind where "KIND_NAMED_TYPE = ''NAMED_TYPE''"
definition KIND_LONG :: typeKind where "KIND_LONG = ''LONG''"
definition KIND_VARIABLE :: typeKind where "KIND_VARIABLE = ''VARIABLE''"

text \<open>
  \<open>typeSignature\<close>, \<open>typeArgument\<close> and \<open>namedTypeSignature\<close> are mutually recursive
  through the \<open>Arguments\<close> slice. A \<open>typeArgument\<close> holds all three decoded fields at
  once (\<open>typeSignature\<close>, \<open>namedTypeSignature\<close>, \<open>long\<close>); \<open>Kind\<close> says which one
  \<open>unmarshalArguments\<close> filled in, the others keep their zero value. \<open>Value\<close> is the
  raw JSON of the argument.
\<close>

datatype rowFieldName = RowFieldName string

datatype typeSignature =
  MkTypeSignature (RawType: string) (Arguments: "typeArgument list")
and typeArgument =
  MkTypeArgument (Kind: typeKind) (Value: string) (typeSignature: typeSignature)
    (namedTypeSignature: namedTypeSignature) (long: int)
and namedTypeSignature =
  MkNamedTypeSignature (FieldName: rowFieldName) (TypeSignature: typeSignature)

text \<open>\<open>optionalInt64\<close>: a value and a flag; the zero value has the flag unset.\<close>

record optionalInt64 =
  value64 :: int
  hasValue :: bool

definition newOptionalInt64 :: "int \<Rightarrow> optionalInt64" where
  "newOptionalInt64 v = \<lparr>value64 = v, hasValue = True\<rparr>"

definition noOptionalInt64 :: optionalInt64 where
  "noOptionalInt64 = \<lparr>value64 = 0, hasValue = False\<rparr>"

text \<open>
  The \<open>reflect.Type\<close> values \<open>getScanType\<close> can return, one constructor per Go type;
  \<open>EmptyInterface\<close> is \<open>interface{}\<close>.
\<close>

datatype scanType =
  NullBool | NullString | ByteSlice | NullInt32 | NullInt64 | NullFloat64 | NullTime
| NullMap
| NullSliceBool | NullSliceString | NullSliceInt64 | NullSliceFloat64 | NullSliceTime
| NullSliceMap
| NullSlice2Bool | NullSlice2String | NullSlice2Int64 | NullSlice2Float64 | NullSlice2Time
| NullSlice2Map
| NullSlice3Bool | NullSlice3String | NullSlice3Int64 | NullSlice3Float64 | NullSlice3Time
| NullSlice3Map
| EmptyInterface

record typeConverter =
  typeName :: string
  parsedType :: "string list"
  scanType :: scanType
  precision :: optionalInt64
  scale :: optionalInt64
  size_f :: optionalInt64

text \<open>
  \<open>getNestedTypes(types, signature)\<close>: appends the raw type and follows the argument
  only when there is exactly one and its kind is \<open>TYPE\<close> or \<open>NAMED_TYPE\<close>.
\<close>

fun getNestedTypes :: "string list \<Rightarrow> typeSignature \<Rightarrow> string list" where
  "getNestedTypes types
     (MkTypeSignature raw [MkTypeArgument kind v ts (MkNamedTypeSignature fname nts) lng]) =
     (if kind = KIND_TYPE then getNestedTypes (types @ [raw]) ts
      else if kind = KIND_NAMED_TYPE then getNestedTypes (types @ [raw]) nts
      else types @ [raw])"
| "getNestedTypes types (MkTypeSignature raw args) = types @ [raw]"

text \<open>The case lists of the switches in \<open>getScanType\<close>.\<close>

definition stringTypes :: "string list" where
  "stringTypes = [''json'', ''char'', ''varchar'', ''interval year to month'',
     ''interval day to second'', ''decimal'', ''ipaddress'', ''uuid'', ''unknown'']"

definition stringElemTypes :: "string list" where
  "stringElemTypes = [''json'', ''char'', ''varchar'', ''varbinary'',
     ''interval year to month'', ''interval day to second'', ''decimal'', ''ipaddress'',
     ''uuid'', ''unknown'']"

definition intElemTypes :: "string list" where
  "intElemTypes = [''tinyint'', ''smallint'', ''integer'', ''bigint'']"

definition floatTypes :: "string list" where
  "floatTypes = [''real'', ''double'']"

definition timeTypes :: "string list" where
  "timeTypes = [''date'', ''time'', ''time with time zone'', ''timestamp'',
     ''timestamp with time zone'']"

text \<open>
  \<open>getScanType(typeNames)\<close>: four nested switches. \<open>v\<close> stays \<open>nil\<close> when no case
  matches, which gives \<open>interface{}\<close>; an \<open>array\<close> with no element type is the
  invalid-type error. \<open>typeNames[0]\<close> on an empty slice would panic.
\<close>

definition getScanType :: "string list \<Rightarrow> error + scanType" where
  "getScanType typeNames =
     (case typeNames of
        [] \<Rightarrow> Inl (Panic ''index out of range'')
      | t0 # r0 \<Rightarrow>
          if t0 = ''boolean'' then Inr NullBool
          else if t0 \<in> set stringTypes then Inr NullString
          else if t0 = ''varbinary'' then Inr ByteSlice
          else if t0 = ''tinyint'' \<or> t0 = ''smallint'' then Inr NullInt32
          else if t0 = ''integer'' then Inr NullInt32
          else if t0 = ''bigint'' then Inr NullInt64
          else if t0 \<in> set floatTypes then Inr NullFloat64
          else if t0 \<in> set timeTypes then Inr NullTime
          else if t0 = ''map'' then Inr NullMap
          else if t0 = ''array'' then
            (case r0 of
               [] \<Rightarrow> Inl ErrInvalidResponseType
             | t1 # r1 \<Rightarrow>
                 if t1 = ''boolean'' then Inr NullSliceBool
                 else if t1 \<in> set stringElemTypes then Inr NullSliceString
                 else if t1 \<in> set intElemTypes then Inr NullSliceInt64
                 else if t1 \<in> set floatTypes then Inr NullSliceFloat64
                 else if t1 \<in> set timeTypes then Inr NullSliceTime
                 else if t1 = ''map'' then Inr NullSliceMap
                 else if t1 = ''array'' then
                   (case r1 of
                      [] \<Rightarrow> Inl ErrInvalidResponseType
                    | t2 # r2 \<Rightarrow>
                        if t2 = ''boolean'' then Inr NullSlice2Bool
                        else if t2 \<in> set stringElemTypes then Inr NullSlice2String
                        else if t2 \<in> set intElemTypes then Inr NullSlice2Int64
                        else if t2 \<in> set floatTypes then Inr NullSlice2Float64
                        else if t2 \<in> set timeTypes then Inr NullSlice2Time
                        else if t2 = ''map'' then Inr NullSlice2Map
                        else if t2 = ''array'' then
                          (case r2 of
                             [] \<Rightarrow> Inl ErrInvalidResponseType
                           | t3 # r3 \<Rightarrow>
                               if t3 = ''boolean'' then Inr NullSlice3Bool
                               else if t3 \<in> set stringElemTypes then Inr NullSlice3String
                               else if t3 \<in> set intElemTypes then Inr NullSlice3Int64
                               else if t3 \<in> set floatTypes then Inr NullSlice3Float64
                               else if t3 \<in> set timeTypes then Inr NullSlice3Time
                               else if t3 = ''map'' then Inr NullSlice3Map
                               else Inr EmptyInterface)
                        else Inr EmptyInterface)
                 else Inr EmptyInterface)
          else Inr EmptyInterface)"

text \<open>
  \<open>newTypeConverter(typeName, signature)\<close>. The scan type is computed first and its
  error returned; then the switch on \<open>signature.RawType\<close> reads the arguments. For
  \<open>decimal\<close> the two \<open>if\<close> statements run one after the other.
\<close>

definition newTypeConverter :: "string \<Rightarrow> typeSignature \<Rightarrow> error + typeConverter" where
  "newTypeConverter tname signature =
     (let ptype = getNestedTypes [] signature in
      case getScanType ptype of
        Inl err \<Rightarrow> Inl err
      | Inr st \<Rightarrow>
          let result = \<lparr>typeName = tname, parsedType = ptype, scanType = st,
                        precision = noOptionalInt64, scale = noOptionalInt64,
                        size_f = noOptionalInt64\<rparr>;
              args = Arguments signature
          in
          if RawType signature = ''char'' \<or> RawType signature = ''varchar'' then
            (if length args > 0 then
               (if Kind (args ! 0) \<noteq> KIND_LONG then Inl ErrInvalidResponseType
                else Inr (result\<lparr>size_f := newOptionalInt64 (long (args ! 0))\<rparr>))
             else Inr result)
          else if RawType signature = ''decimal'' then
            (case
               (if length args > 0 then
                  (if Kind (args ! 0) \<noteq> KIND_LONG then Inl ErrInvalidResponseType
                   else Inr (result\<lparr>precision := newOptionalInt64 (long (args ! 0))\<rparr>))
                else Inr result)
             of
               Inl err \<Rightarrow> Inl err
             | Inr result1 \<Rightarrow>
                 if length args > 1 then
                   (if Kind (args ! 1) \<noteq> KIND_LONG then Inl ErrInvalidResponseType
                    else Inr (result1\<lparr>scale := newOptionalInt64 (long (args ! 1))\<rparr>))
                 else Inr result1)
          else if RawType signature = ''time'' \<or> RawType signature = ''time with time zone''
                  \<or> RawType signature = ''timestamp''
                  \<or> RawType signature = ''timestamp with time zone'' then
            (if length args > 0 then
               (if Kind (args ! 0) \<noteq> KIND_LONG then Inl ErrInvalidResponseType
                else Inr (result\<lparr>precision := newOptionalInt64 (long (args ! 0))\<rparr>))
             else Inr result)
          else Inr result)"

text \<open>
  Auxiliary: the converter \<open>newTypeConverter\<close> starts from, before the switch on the raw
  type fills in any of \<open>precision\<close>, \<open>scale\<close>, \<open>size\<close>.
\<close>

definition emptyConverter :: "string \<Rightarrow> typeSignature \<Rightarrow> scanType \<Rightarrow> typeConverter" where
  "emptyConverter tname signature st =
     \<lparr>typeName = tname, parsedType = getNestedTypes [] signature, scanType = st,
      precision = noOptionalInt64, scale = noOptionalInt64, size_f = noOptionalInt64\<rparr>"

section \<open>HTTP transport wrapper\<close>

subsection \<open>Headers\<close>

text \<open>
  \<open>http.Header\<close> is a \<open>map[string][]string\<close>. Its methods canonicalise the key they are
  given; every key used here is one of the constants below, which are in canonical form
  already, so the methods are modelled on the key as it is.
\<close>

type_synonym header = "string \<rightharpoonup> string list"

definition trinoHeaderPrefix :: string where "trinoHeaderPrefix = ''X-Trino-''"
definition preparedStatementHeader :: string where
  "preparedStatementHeader = trinoHeaderPrefix @ ''Prepared-Statement''"
definition trinoCatalogHeader :: string where
  "trinoCatalogHeader = trinoHeaderPrefix @ ''Catalog''"
definition trinoSchemaHeader :: string where
  "trinoSchemaHeader = trinoHeaderPrefix @ ''Schema''"
definition trinoSessionHeader :: string where
  "trinoSessionHeader = trinoHeaderPrefix @ ''Session''"
definition trinoSetCatalogHeader :: string where
  "trinoSetCatalogHeader = trinoHeaderPrefix @ ''Set-Catalog''"
definition trinoSetSchemaHeader :: string where
  "trinoSetSchemaHeader = trinoHeaderPrefix @ ''Set-Schema''"
definition trinoSetPathHeader :: string where
  "trinoSetPathHeader = trinoHeaderPrefix @ ''Set-Path''"
definition trinoSetSessionHeader :: string where
  "trinoSetSessionHeader = trinoHeaderPrefix @ ''Set-Session''"
definition trinoClearSessionHeader :: string where
  "trinoClearSessionHeader = trinoHeaderPrefix @ ''Clear-Session''"
definition trinoSetRoleHeader :: string where
  "trinoSetRoleHeader = trinoHeaderPrefix @ ''Set-Role''"
definition trinoAddedPrepareHeader :: string where
  "trinoAddedPrepareHeader = trinoHeaderPrefix @ ''Added-Prepare''"
definition trinoDeallocatedPrepareHeader :: string where
  "trinoDeallocatedPrepareHeader = trinoHeaderPrefix @ ''Deallocated-Prepare''"

definition responseToRequestHeaderMap :: "(string \<times> string) list" where
  "responseToRequestHeaderMap =
     [(trinoSetSchemaHeader, trinoSchemaHeader), (trinoSetCatalogHeader, trinoCatalogHeader)]"

definition unsupportedResponseHeaders :: "string list" where
  "unsupportedResponseHeaders = [trinoSetPathHeader, trinoSetRoleHeader]"

text \<open>
  \<open>Header.Get\<close> (the first value, or the empty string), \<open>Header.Values\<close>,
  \<open>Header.Set\<close>, \<open>Header.Add\<close> and \<open>Header.Del\<close>.
\<close>

definition header_Get :: "header \<Rightarrow> string \<Rightarrow> string" where
  "header_Get h k = (case h k of None \<Rightarrow> [] | Some [] \<Rightarrow> [] | Some (v # vs) \<Rightarrow> v)"

definition header_Values :: "header \<Rightarrow> string \<Rightarrow> string list" where
  "header_Values h k = (case h k of None \<Rightarrow> [] | Some vs \<Rightarrow> vs)"

definition header_Set :: "header \<Rightarrow> string \<Rightarrow> string \<Rightarrow> header" where
  "header_Set h k v = h(k \<mapsto> [v])"

definition header_Add :: "header \<Rightarrow> string \<Rightarrow> string \<Rightarrow> header" where
  "header_Add h k v = h(k \<mapsto> header_Values h k @ [v])"

definition header_Del :: "header \<Rightarrow> string \<Rightarrow> header" where
  "header_Del h k = h(k := None)"

text \<open>\<open>strings.HasPrefix(s, prefix)\<close>.\<close>

definition HasPrefix :: "string \<Rightarrow> string \<Rightarrow> bool" where
  "HasPrefix s pre = (length pre \<le> length s \<and> take (length pre) s = pre)"

text \<open>
  The loop shared by the \<open>Deallocated-Prepare\<close> and \<open>Clear-Session\<close> branches: read the
  values of the outbound header, delete the header, and add back every value that does
  not start with \<open>v=\<close>.
\<close>

definition removeEntries :: "header \<Rightarrow> string \<Rightarrow> string \<Rightarrow> header" where
  "removeEntries h k v =
     foldl (\<lambda>h' v2. if \<not> HasPrefix v2 (v @ ''='') then header_Add h' k v2 else h')
       (header_Del h k) (header_Values h k)"

text \<open>
  The \<open>http.StatusOK\<close> branch of \<open>Conn.roundTrip\<close>, in the order of the source: the
  \<open>Set-Schema\<close>/\<open>Set-Catalog\<close> replacements (a Go map range; the two entries write
  different keys, so their order has no effect), \<open>Added-Prepare\<close>, \<open>Deallocated-Prepare\<close>,
  \<open>Set-Session\<close>, \<open>Clear-Session\<close>. The connection headers are mutated before the
  unsupported headers are looked at.
\<close>

definition ingestResponseHeaders :: "header \<Rightarrow> header \<Rightarrow> header" where
  "ingestResponseHeaders respHeader httpHeaders =
     (let h1 = foldl (\<lambda>h (src, dst).
                 if header_Get respHeader src \<noteq> [] then header_Set h dst (header_Get respHeader src)
                 else h) httpHeaders responseToRequestHeaderMap;
          h2 = (if header_Get respHeader trinoAddedPrepareHeader \<noteq> []
                then header_Add h1 preparedStatementHeader
                       (header_Get respHeader trinoAddedPrepareHeader)
                else h1);
          h3 = (if header_Get respHeader trinoDeallocatedPrepareHeader \<noteq> []
                then removeEntries h2 preparedStatementHeader
                       (header_Get respHeader trinoDeallocatedPrepareHeader)
                else h2);
          h4 = (if header_Get respHeader trinoSetSessionHeader \<noteq> []
                then header_Add h3 trinoSessionHeader
                       (header_Get respHeader trinoSetSessionHeader)
                else h3);
          h5 = (if header_Get respHeader trinoClearSessionHeader \<noteq> []
                then removeEntries h4 trinoSessionHeader
                       (header_Get respHeader trinoClearSessionHeader)
                else h4)
      in h5)"

definition hasUnsupportedHeader :: "header \<Rightarrow> bool" where
  "hasUnsupportedHeader respHeader =
     (\<exists>name \<in> set unsupportedResponseHeaders. header_Get respHeader name \<noteq> [])"

subsection \<open>Retry delay\<close>

text \<open>
  \<open>delay = time.Duration(math.Min(float64(delay)*math.Phi, maxDelayBetweenRequests))\<close>.
  A \<open>time.Duration\<close> counts nanoseconds. The delays that occur are at most \<open>15 * 10^9\<close>,
  below \<open>2^53\<close>, so \<open>float64(delay)\<close> is exact. \<open>math.Phi\<close> as a \<open>float64\<close> is
  \<open>7286977268806824 / 2^52\<close> (bits \<open>0x3FF9E3779B97F4A8\<close>). The product is the exact
  product rounded to 53 significant bits, ties to even; the conversion back to
  \<open>time.Duration\<close> truncates.
\<close>

fun bitlen :: "nat \<Rightarrow> nat" where
  "bitlen n = (if n = 0 then 0 else Suc (bitlen (n div 2)))"

declare bitlen.simps [simp del]

definition float64_Phi :: nat where
  "float64_Phi = 7286977268806824"

text \<open>
  \<open>round53 p\<close>: the integer \<open>p\<close> rounded to 53 significant bits, ties to even (the result
  is again an integer, a multiple of the power of two that was rounded away).
\<close>

definition round53 :: "nat \<Rightarrow> nat" where
  "round53 p =
     (if bitlen p \<le> 53 then p
      else
        (let s = bitlen p - 53; q = p div 2 ^ s; r = p mod 2 ^ s; half = 2 ^ (s - 1)
         in if r > half \<or> (r = half \<and> odd q) then (q + 1) * 2 ^ s else q * 2 ^ s))"

definition maxDelayBetweenRequests :: nat where
  "maxDelayBetweenRequests = 15 * 1000000000"

text \<open>
  The product in units of \<open>2^-52\<close> ns is \<open>round53 (delay * float64_Phi)\<close>; \<open>math.Min\<close>
  compares it with the maximum, and the conversion divides with truncation.
\<close>

definition nextDelay :: "nat \<Rightarrow> nat" where
  "nextDelay delay =
     (let x = round53 (delay * float64_Phi)
      in if x \<le> maxDelayBetweenRequests * 2 ^ 52 then x div 2 ^ 52
         else maxDelayBetweenRequests)"


subsection \<open>Round trip\<close>

text \<open>
  An HTTP response as far as \<open>roundTrip\<close> reads it. Reading the body (for the error
  message of a failed query) can itself fail.
\<close>

datatype body = BodyData string | BodyReadFails string

record response =
  StatusCode :: int
  Header :: header
  Body :: body
  ContentLength :: int

text \<open>
  \<open>newErrQueryFailedFromResponse\<close>: at most 8 KiB of the body, with \<open>...\<close> appended when
  the declared content length is larger.
\<close>

definition newErrQueryFailedFromResponse :: "response \<Rightarrow> error" where
  "newErrQueryFailedFromResponse resp =
     ErrQueryFailed (StatusCode resp)
       (case Body resp of
          BodyReadFails e \<Rightarrow> ReasonCause e
        | BodyData b \<Rightarrow>
            ReasonBody (take (8 * 1024) b @ (if ContentLength resp > 8 * 1024 then ''...'' else [])))"

text \<open>
  What the \<open>select\<close> of the loop observes, one event per iteration: the context is done
  (with \<open>ctx.Err()\<close>), or the timer fires and \<open>c.httpClient.Do(req)\<close> returns an error or
  a response. The environment is the list of these events in the order the loop takes
  them; the loop itself has no bound, so on a list that ends while the server keeps
  answering 502, 503 or 504 the model has no returned value (\<open>None\<close>: still waiting).
\<close>

datatype event = CtxDone error | HttpDo "string + response"

record roundTripOut =
  connHeaders :: header
  timerResets :: "nat list"
  returned :: "(error + response) option"

fun roundTripLoop :: "header \<Rightarrow> nat \<Rightarrow> nat list \<Rightarrow> event list \<Rightarrow> roundTripOut" where
  "roundTripLoop hs delay resets [] =
     \<lparr>connHeaders = hs, timerResets = resets, returned = None\<rparr>"
| "roundTripLoop hs delay resets (CtxDone err # es) =
     \<lparr>connHeaders = hs, timerResets = resets, returned = Some (Inl err)\<rparr>"
| "roundTripLoop hs delay resets (HttpDo (Inl cause) # es) =
     \<lparr>connHeaders = hs, timerResets = resets,
      returned = Some (Inl (ErrQueryFailed 0 (ReasonCause cause)))\<rparr>"
| "roundTripLoop hs delay resets (HttpDo (Inr resp) # es) =
     (if StatusCode resp = 200 then
        \<lparr>connHeaders = ingestResponseHeaders (Header resp) hs, timerResets = resets,
         returned = Some (if hasUnsupportedHeader (Header resp) then Inl ErrUnsupportedHeader
                          else Inr resp)\<rparr>
      else if StatusCode resp = 502 \<or> StatusCode resp = 503 \<or> StatusCode resp = 504 then
        roundTripLoop hs (nextDelay delay) (resets @ [delay]) es
      else
        \<lparr>connHeaders = hs, timerResets = resets,
         returned = Some (Inl (newErrQueryFailedFromResponse resp))\<rparr>)"

text \<open>
  \<open>Conn.roundTrip\<close>: the first attempt is immediate (\<open>time.NewTimer(0)\<close>); the delay
  starts at 100 ms. \<open>timerResets\<close> lists the arguments of \<open>timer.Reset\<close>, the wait before
  each retry.
\<close>

definition roundTrip :: "header \<Rightarrow> event list \<Rightarrow> roundTripOut" where
  "roundTrip httpHeaders events = roundTripLoop httpHeaders (100 * 1000000) [] events"

section \<open>Statement configuration\<close>

text \<open>
  Modelled from the Go standard library's documentation, which is not part of the
  repository: \<open>strconv.Atoi\<close> on a 64-bit platform. An optional sign, then one or more
  decimal digits; anything else is a syntax error, a value outside \<open>int64\<close> a range
  error (both are \<open>AtoiError\<close> here).
\<close>

fun digitsValue :: "nat \<Rightarrow> string \<Rightarrow> nat option" where
  "digitsValue acc [] = Some acc"
| "digitsValue acc (c # cs) =
     (let n = (of_char c :: nat)
      in if 48 \<le> n \<and> n \<le> 57 then digitsValue (acc * 10 + (n - 48)) cs else None)"

definition Atoi :: "string \<Rightarrow> error + int" where
  "Atoi s =
     (let (neg, ds) =
            (case s of
               [] \<Rightarrow> (False, s)
             | c # r \<Rightarrow>
                 if c = CHR ''-'' then (True, r)
                 else if c = CHR ''+'' then (False, r)
                 else (False, s))
      in if ds = [] then Inl (AtoiError s)
         else
           (case digitsValue 0 ds of
              None \<Rightarrow> Inl (AtoiError s)
            | Some n \<Rightarrow>
                (let v = (if neg then - int n else int n)
                 in if v < - (2 ^ 63) \<or> 2 ^ 63 - 1 < v then Inl (AtoiError s) else Inr v)))"

definition trinoSpoolingWorkerCount :: string where
  "trinoSpoolingWorkerCount = ''spooling_worker_count''"
definition trinoMaxOutOfOrdersSegments :: string where
  "trinoMaxOutOfOrdersSegments = ''max_out_of_order_segments''"
definition defaultallowedOutOfOrder :: int where
  "defaultallowedOutOfOrder = 10"
definition defaultSpoolingDownloadWorkers :: int where
  "defaultSpoolingDownloadWorkers = 5"

text \<open>
  The two fields of \<open>driverStmt\<close> that configure the spooling pipeline (Go \<open>int\<close>; the
  zero value means the argument was not given).
\<close>

record driverStmt =
  spoolingMaxOutOfOrderSegments :: int
  spoolingWorkerCount :: int

text \<open>
  The argument loop of \<open>driverStmt.exec\<close>, for the two named arguments that set these
  fields; their values are strings, converted with \<open>strconv.Atoi\<close>, whose error is
  returned. Arguments of other names are handled by branches that do not touch the two
  fields and are skipped here.
\<close>

fun execArgs :: "driverStmt \<Rightarrow> (string \<times> string) list \<Rightarrow> error + driverStmt" where
  "execArgs st [] = Inr st"
| "execArgs st ((name, v) # args) =
     (if name = trinoSpoolingWorkerCount then
        (case Atoi v of
           Inl err \<Rightarrow> Inl err
         | Inr numberOfWorkers \<Rightarrow> execArgs (st\<lparr>spoolingWorkerCount := numberOfWorkers\<rparr>) args)
      else if name = trinoMaxOutOfOrdersSegments then
        (case Atoi v of
           Inl err \<Rightarrow> Inl err
         | Inr maxSegmentsOutOfOrder \<Rightarrow>
             execArgs (st\<lparr>spoolingMaxOutOfOrderSegments := maxSegmentsOutOfOrder\<rparr>) args)
      else execArgs st args)"

text \<open>
  \<open>driverStmt.exec\<close> up to its configuration check: the argument loop, then
  \<open>if st.spoolingWorkerCount > st.spoolingMaxOutOfOrderSegments\<close> on the fields as the
  loop left them.
\<close>

definition exec :: "driverStmt \<Rightarrow> (string \<times> string) list \<Rightarrow> error + driverStmt" where
  "exec st args =
     (case execArgs st args of
        Inl err \<Rightarrow> Inl err
      | Inr st' \<Rightarrow>
          if spoolingWorkerCount st' > spoolingMaxOutOfOrderSegments st'
          then Inl (SpoolingWorkerGreaterThanMaxOutOfOrder (spoolingWorkerCount st')
                      (spoolingMaxOutOfOrderSegments st'))
          else Inr st')"

text \<open>
  The defaults, applied by \<open>startSpoolingProtocolWorkers\<close> when the first spooled page
  arrives, after \<open>exec\<close> has returned.
\<close>

definition startSpoolingProtocolWorkers :: "driverStmt \<Rightarrow> driverStmt" where
  "startSpoolingProtocolWorkers st =
     (let st1 = (if spoolingWorkerCount st = 0
                 then st\<lparr>spoolingWorkerCount := defaultSpoolingDownloadWorkers\<rparr> else st)
      in if spoolingMaxOutOfOrderSegments st1 = 0
         then st1\<lparr>spoolingMaxOutOfOrderSegments := defaultallowedOutOfOrder\<rparr> else st1)"

section \<open>Ordered segment streamer\<close>

text \<open>
  \<open>decodedSegment\<close>: the row offset of a segment (\<open>int64\<close>) and its decoded rows. The
  offsets and row counts that occur are far below \<open>2^63\<close>, so \<open>int\<close> is used and
  \<open>nextExpectedOffset += int64(len(...))\<close> is plain addition.
\<close>

record 'row decodedSegment =
  rowOffset :: int
  queryData :: "'row list"

text \<open>
  The state of the goroutine started by \<open>startOrderedSegmentStreamer\<close>: its local
  variables \<open>buffer\<close> and \<open>nextExpectedOffset\<close>, and what it has done to the channels
  so far: the batches sent on \<open>spoolingRowsChannel\<close>, the errors sent on \<open>errors\<close>, and
  the number of tokens received from \<open>segmentThrottleCh\<close>.
\<close>

record 'row streamer =
  buffer :: "'row decodedSegment list"
  nextExpectedOffset :: int
  spoolingRowsChannel :: "'row list list"
  errors :: "error list"
  released :: nat

definition initStreamer :: "'row streamer" where
  "initStreamer =
     \<lparr>buffer = [], nextExpectedOffset = 0, spoolingRowsChannel = [], errors = [], released = 0\<rparr>"

text \<open>
  The inner loop \<open>for consumed < len(buffer) && buffer[consumed].rowOffset ==
  nextExpectedOffset\<close>, in three parts: its condition, the send of the rows, and the
  receive of one throttle token followed by the advance of \<open>nextExpectedOffset\<close>.
\<close>

definition loopCond :: "'row streamer \<Rightarrow> nat \<Rightarrow> bool" where
  "loopCond st consumed =
     (consumed < length (buffer st)
      \<and> rowOffset (buffer st ! consumed) = nextExpectedOffset st)"

definition sendRows :: "'row streamer \<Rightarrow> nat \<Rightarrow> 'row streamer" where
  "sendRows st consumed =
     st\<lparr>spoolingRowsChannel := spoolingRowsChannel st @ [queryData (buffer st ! consumed)]\<rparr>"

definition releaseSlot :: "'row streamer \<Rightarrow> nat \<Rightarrow> 'row streamer" where
  "releaseSlot st consumed =
     st\<lparr>released := released st + 1,
        nextExpectedOffset :=
          nextExpectedOffset st + int (length (queryData (buffer st ! consumed)))\<rparr>"

function emitLoop :: "'row streamer \<Rightarrow> nat \<Rightarrow> 'row streamer \<times> nat" where
  "emitLoop st consumed =
     (if loopCond st consumed
      then emitLoop (releaseSlot (sendRows st consumed) consumed) (consumed + 1)
      else (st, consumed))"
  by pat_completeness auto
termination
  by (relation "measure (\<lambda>(st, consumed). length (buffer st) - consumed)")
     (auto simp: loopCond_def releaseSlot_def sendRows_def)

declare emitLoop.simps [simp del]

text \<open>
  One iteration of the outer loop, for a segment received from \<open>decodedSegments\<close>:
  append; on an offset mismatch report the error when \<open>len(buffer)\<close> has reached the
  bound and \<open>continue\<close> (the goroutine goes on receiving); otherwise sort the buffer by
  \<open>rowOffset\<close>, run the inner loop, and drop the consumed prefix. The send on \<open>errors\<close>
  is recorded as done. \<open>slices.SortFunc\<close> is not stable; \<open>sort_key\<close> is one of the
  orders it may produce, and the only one when the offsets in the buffer differ.
\<close>

definition onSegment :: "int \<Rightarrow> 'row streamer \<Rightarrow> 'row decodedSegment \<Rightarrow> 'row streamer" where
  "onSegment maxOutOfOrder st segment =
     (let st1 = st\<lparr>buffer := buffer st @ [segment]\<rparr>
      in if nextExpectedOffset st1 \<noteq> rowOffset segment then
           (if int (length (buffer st1)) \<ge> maxOutOfOrder
            then st1\<lparr>errors := errors st1
                        @ [AllOutOfOrderSegmentsBuffered (length (buffer st1)) maxOutOfOrder]\<rparr>
            else st1)
         else
           (let st2 = st1\<lparr>buffer := sort_key rowOffset (buffer st1)\<rparr>;
                (st3, consumed) = emitLoop st2 0
            in st3\<lparr>buffer := drop consumed (buffer st3)\<rparr>))"

text \<open>
  The streamer run on the segments that arrive on \<open>decodedSegments\<close>, in their order of
  arrival, until the channel is closed; the statement is not closed meanwhile (\<open>doneCh\<close>
  does not fire) and the consumer takes what is sent.
\<close>

definition startOrderedSegmentStreamer ::
  "int \<Rightarrow> 'row decodedSegment list \<Rightarrow> 'row streamer" where
  "startOrderedSegmentStreamer maxOutOfOrder arrivals =
     foldl (onSegment maxOutOfOrder) initStreamer arrivals"


text \<open>The five segments of the reordering scenario: segment \<open>i\<close> holds the rows \<open>2i, 2i+1\<close>.\<close>

definition seg :: "nat \<Rightarrow> nat decodedSegment" where
  "seg i = \<lparr>rowOffset = 2 * int i, queryData = [2 * i, 2 * i + 1]\<rparr>"

text \<open>
  Auxiliary: the prefix of a buffer that the inner loop sends when it starts at the given
  expected offset, as a structural recursion on the buffer.
\<close>

fun drain :: "int \<Rightarrow> 'row decodedSegment list \<Rightarrow> 'row decodedSegment list" where
  "drain off [] = []"
| "drain off (s # ss) =
     (if rowOffset s = off then s # drain (off + int (length (queryData s))) ss else [])"


section \<open>Spooling pipeline\<close>

text \<open>
  The goroutines of the spooling pipeline, as one state and one step per channel
  operation. A segment on \<open>segmentsToProccess\<close> is represented by the value of its
  \<open>"type"\<close> entry and by the decoded segment that download and decoding yield for it.
\<close>

record 'row segmentToProccess =
  segmentType :: string
  content :: "'row decodedSegment"

text \<open>
  Where the ordered streamer stands: at the receive on \<open>decodedSegments\<close>, at the head
  of the inner loop with \<open>consumed = c\<close>, or between the send of the rows of
  \<open>buffer[c]\<close> and the receive from \<open>segmentThrottleCh\<close>.
\<close>

datatype streamerPhase = Receiving | Emitting nat | Releasing nat

text \<open>
  \<open>segmentThrottleCh\<close> carries \<open>struct{}\<close> values, so its content is their number.
  \<open>spooledSegmentsMetadata\<close> and \<open>spooledSegmentsToDecode\<close> hold the segments sent on
  the channel of that name and not yet passed on, those in the hands of a worker
  included. \<open>admitted\<close> counts the sends on \<open>segmentThrottleCh\<close>; \<open>dropped\<close> counts the
  admitted segments that are not passed on: a \<open>"type"\<close> that is neither
  \<open>"inline"\<close> nor \<open>"spooled"\<close>, a failed download, a failed decoding.
\<close>

record 'row pipeline =
  segmentsToProccess :: "'row segmentToProccess list"
  inputClosed :: bool
  segmentThrottleCh :: nat
  throttleClosed :: bool
  spooledSegmentsMetadata :: "'row decodedSegment list"
  spooledSegmentsToDecode :: "'row decodedSegment list"
  orderedStreamer :: "'row streamer"
  phase :: streamerPhase
  admitted :: nat
  dropped :: nat

text \<open>The channels as \<open>startSpoolingProtocolWorkers\<close> makes them, and the streamer at its start.\<close>

definition newPipeline :: "'row pipeline" where
  "newPipeline =
     \<lparr>segmentsToProccess = [], inputClosed = False, segmentThrottleCh = 0,
      throttleClosed = False, spooledSegmentsMetadata = [], spooledSegmentsToDecode = [],
      orderedStreamer = initStreamer, phase = Receiving, admitted = 0, dropped = 0\<rparr>"

text \<open>
  The capacity \<open>segmentThrottleCh\<close> is made with: \<open>st.spoolingMaxOutOfOrderSegments\<close>
  after the defaults.
\<close>

definition throttleCapacity :: "driverStmt \<Rightarrow> int" where
  "throttleCapacity st = spoolingMaxOutOfOrderSegments (startSpoolingProtocolWorkers st)"

datatype 'row action =
    Enqueue "'row segmentToProccess"
  | CloseInput
  | Dispatch
  | DispatcherReturn
  | Download nat
  | DownloadFail nat
  | Decode nat
  | DecodeFail nat
  | Emit
  | Release
  | Finish

definition removeAt :: "nat \<Rightarrow> 'a list \<Rightarrow> 'a list" where
  "removeAt i xs = take i xs @ drop (Suc i) xs"

text \<open>
  The dispatcher, for the segment at the head of \<open>segmentsToProccess\<close>: the send on
  \<open>segmentThrottleCh\<close>, possible only below the capacity, then the switch on the type.
  The sends on \<open>errors\<close> for malformed metadata do not end the iteration and are left
  out.
\<close>

definition dispatch :: "int \<Rightarrow> 'row pipeline \<Rightarrow> 'row pipeline option" where
  "dispatch capacity s =
     (case segmentsToProccess s of
        [] \<Rightarrow> None
      | x # queue \<Rightarrow>
          if throttleClosed s \<or> \<not> int (segmentThrottleCh s) < capacity then None
          else
            (let s1 = s\<lparr>segmentsToProccess := queue,
                        segmentThrottleCh := segmentThrottleCh s + 1,
                        admitted := admitted s + 1\<rparr>
             in if segmentType x = ''inline''
                then Some (s1\<lparr>spooledSegmentsToDecode :=
                                spooledSegmentsToDecode s1 @ [content x]\<rparr>)
                else if segmentType x = ''spooled''
                then Some (s1\<lparr>spooledSegmentsMetadata :=
                                spooledSegmentsMetadata s1 @ [content x]\<rparr>)
                else Some (s1\<lparr>dropped := dropped s1 + 1\<rparr>)))"

text \<open>
  The streamer's receive of a decoded segment, up to the inner loop: append, then either
  the mismatch branch (which goes back to the receive) or the sort.
\<close>

definition receive :: "int \<Rightarrow> 'row decodedSegment \<Rightarrow> 'row pipeline \<Rightarrow> 'row pipeline" where
  "receive maxOutOfOrder segment s =
     (let st1 = (orderedStreamer s)\<lparr>buffer := buffer (orderedStreamer s) @ [segment]\<rparr>
      in if nextExpectedOffset st1 \<noteq> rowOffset segment then
           s\<lparr>orderedStreamer :=
               (if int (length (buffer st1)) \<ge> maxOutOfOrder
                then st1\<lparr>errors := errors st1
                            @ [AllOutOfOrderSegmentsBuffered (length (buffer st1)) maxOutOfOrder]\<rparr>
                else st1)\<rparr>
         else
           s\<lparr>orderedStreamer := st1\<lparr>buffer := sort_key rowOffset (buffer st1)\<rparr>,
              phase := Emitting 0\<rparr>)"

text \<open>
  One step of one goroutine; \<open>None\<close> when the step is not possible in the state (the
  goroutine is blocked, or is elsewhere in its code). The bound of the streamer and the
  capacity of \<open>segmentThrottleCh\<close> are the same field of the statement. A receive from
  the closed and empty \<open>segmentThrottleCh\<close> returns at once.
\<close>

definition step :: "int \<Rightarrow> 'row action \<Rightarrow> 'row pipeline \<Rightarrow> 'row pipeline option" where
  "step capacity a s =
     (case a of
        Enqueue x \<Rightarrow>
          if inputClosed s \<or> 1000 \<le> length (segmentsToProccess s) then None
          else Some (s\<lparr>segmentsToProccess := segmentsToProccess s @ [x]\<rparr>)
      | CloseInput \<Rightarrow>
          if inputClosed s then None else Some (s\<lparr>inputClosed := True\<rparr>)
      | Dispatch \<Rightarrow> dispatch capacity s
      | DispatcherReturn \<Rightarrow>
          if segmentsToProccess s = [] \<and> inputClosed s \<and> \<not> throttleClosed s
          then Some (s\<lparr>throttleClosed := True\<rparr>) else None
      | Download i \<Rightarrow>
          if i < length (spooledSegmentsMetadata s)
          then Some (s\<lparr>spooledSegmentsMetadata := removeAt i (spooledSegmentsMetadata s),
                        spooledSegmentsToDecode :=
                          spooledSegmentsToDecode s @ [spooledSegmentsMetadata s ! i]\<rparr>)
          else None
      | DownloadFail i \<Rightarrow>
          if i < length (spooledSegmentsMetadata s)
          then Some (s\<lparr>spooledSegmentsMetadata := removeAt i (spooledSegmentsMetadata s),
                        dropped := dropped s + 1\<rparr>)
          else None
      | Decode i \<Rightarrow>
          if phase s = Receiving \<and> i < length (spooledSegmentsToDecode s)
          then Some (receive capacity (spooledSegmentsToDecode s ! i)
                       (s\<lparr>spooledSegmentsToDecode := removeAt i (spooledSegmentsToDecode s)\<rparr>))
          else None
      | DecodeFail i \<Rightarrow>
          if i < length (spooledSegmentsToDecode s)
          then Some (s\<lparr>spooledSegmentsToDecode := removeAt i (spooledSegmentsToDecode s),
                        dropped := dropped s + 1\<rparr>)
          else None
      | Emit \<Rightarrow>
          (case phase s of
             Emitting c \<Rightarrow>
               if loopCond (orderedStreamer s) c
               then Some (s\<lparr>orderedStreamer := sendRows (orderedStreamer s) c,
                             phase := Releasing c\<rparr>)
               else None
           | _ \<Rightarrow> None)
      | Release \<Rightarrow>
          (case phase s of
             Releasing c \<Rightarrow>
               if 0 < segmentThrottleCh s
               then Some (s\<lparr>segmentThrottleCh := segmentThrottleCh s - 1,
                             orderedStreamer := releaseSlot (orderedStreamer s) c,
                             phase := Emitting (c + 1)\<rparr>)
               else if throttleClosed s
               then Some (s\<lparr>orderedStreamer := releaseSlot (orderedStreamer s) c,
                             phase := Emitting (c + 1)\<rparr>)
               else None
           | _ \<Rightarrow> None)
      | Finish \<Rightarrow>
          (case phase s of
             Emitting c \<Rightarrow>
               if loopCond (orderedStreamer s) c then None
               else Some (s\<lparr>orderedStreamer :=
                               (orderedStreamer s)\<lparr>buffer := drop c (buffer (orderedStreamer s))\<rparr>,
                             phase := Receiving\<rparr>)
           | _ \<Rightarrow> None))"

text \<open>A schedule: the steps taken one after the other, from a state.\<close>

fun run :: "int \<Rightarrow> 'row pipeline \<Rightarrow> 'row action list \<Rightarrow> 'row pipeline option" where
  "run capacity s [] = Some s"
| "run capacity s (a # as) =
     (case step capacity a s of None \<Rightarrow> None | Some s' \<Rightarrow> run capacity s' as)"

text \<open>
  The segments resident in the pipeline: those in flight between the dispatcher and the
  streamer, and those in the streamer's buffer whose rows have not been sent.
\<close>

definition sent :: "streamerPhase \<Rightarrow> nat" where
  "sent p = (case p of Receiving \<Rightarrow> 0 | Emitting c \<Rightarrow> c | Releasing c \<Rightarrow> c + 1)"

definition inFlight :: "'row pipeline \<Rightarrow> nat" where
  "inFlight s = length (spooledSegmentsMetadata s) + length (spooledSegmentsToDecode s)"

definition buffered :: "'row pipeline \<Rightarrow> nat" where
  "buffered s = length (buffer (orderedStreamer s)) - sent (phase s)"

definition resident :: "'row pipeline \<Rightarrow> nat" where
  "resident s = inFlight s + buffered s"

text \<open>The token of a segment whose rows are sent and whose slot is not yet released.\<close>

definition pendingRelease :: "streamerPhase \<Rightarrow> nat" where
  "pendingRelease p = (case p of Releasing c \<Rightarrow> 1 | _ \<Rightarrow> 0)"

definition throttleInvariant :: "int \<Rightarrow> 'row pipeline \<Rightarrow> bool" where
  "throttleInvariant capacity s =
     (int (segmentThrottleCh s) \<le> capacity
      \<and> segmentThrottleCh s + released (orderedStreamer s) = admitted s
      \<and> length (spoolingRowsChannel (orderedStreamer s))
          = released (orderedStreamer s) + pendingRelease (phase s)
      \<and> sent (phase s) \<le> length (buffer (orderedStreamer s))
      \<and> segmentThrottleCh s = resident s + dropped s + pendingRelease (phase s))"

text \<open>
  A schedule for three segments with \<open>max_out_of_order_segments = 2\<close>: the second
  segment is decoded before the first, and the third is admitted only after the first
  has released its slot.
\<close>

definition exampleSchedule :: "nat action list" where
  "exampleSchedule =
     [Enqueue \<lparr>segmentType = ''spooled'', content = seg 0\<rparr>,
      Enqueue \<lparr>segmentType = ''inline'', content = seg 1\<rparr>,
      Enqueue \<lparr>segmentType = ''spooled'', content = seg 2\<rparr>,
      CloseInput, Dispatch, Dispatch, Decode 0, Download 0, Decode 0,
      Emit, Release, Dispatch, Emit]"

section \<open>Theorems\<close>

subsection \<open>Server error mapping\<close>

text \<open>
  C8. Mapping the server-side error of a decoded response: an empty \<open>errorName\<close> gives no
  error, \<open>USER_CANCELLED\<close> gives the dedicated cancelled-query error, and every other
  name gives a query-failed error that carries the HTTP status and the structured server
  error, whose \<open>errorType\<close>, \<open>errorName\<close> and \<open>errorCode\<close> are those of the response.
\<close>

theorem handleResponseError_mapping:
  "(ErrorName respErr = [] \<longrightarrow> handleResponseError status respErr = None)
   \<and> (ErrorName respErr = ''USER_CANCELLED''
        \<longrightarrow> handleResponseError status respErr = Some ErrQueryCancelled)
   \<and> (ErrorName respErr \<noteq> [] \<and> ErrorName respErr \<noteq> ''USER_CANCELLED''
        \<longrightarrow> (\<exists>r. handleResponseError status respErr = Some (ErrQueryFailed status (ReasonTrino r))
                 \<and> ErrorType r = ErrorType respErr
                 \<and> ErrorName r = ErrorName respErr
                 \<and> ErrorCode r = ErrorCode respErr))"
  by (simp add: handleResponseError_def)

theorem handleResponseError_mapping_witness:
  "handleResponseError 200
     \<lparr>Message = [], SqlState = [], ErrorCode = 0, ErrorName = [], ErrorType = [],
      ErrorLocation = \<lparr>LineNumber = 0, ColumnNumber = 0\<rparr>,
      FailureInfo = MkFailureInfo [] [] None [] [] \<lparr>Code = 0, Name = [], Type = []\<rparr>
                      \<lparr>LineNumber = 0, ColumnNumber = 0\<rparr>\<rparr> = None
   \<and> handleResponseError 200
     \<lparr>Message = ''Query was canceled'', SqlState = [], ErrorCode = 3,
      ErrorName = ''USER_CANCELLED'', ErrorType = ''USER_ERROR'',
      ErrorLocation = \<lparr>LineNumber = 0, ColumnNumber = 0\<rparr>,
      FailureInfo = MkFailureInfo [] [] None [] [] \<lparr>Code = 0, Name = [], Type = []\<rparr>
                      \<lparr>LineNumber = 0, ColumnNumber = 0\<rparr>\<rparr> = Some ErrQueryCancelled
   \<and> (\<exists>r. handleResponseError 200
     \<lparr>Message = ''line 1:1: mismatched input'', SqlState = [], ErrorCode = 1,
      ErrorName = ''SYNTAX_ERROR'', ErrorType = ''USER_ERROR'',
      ErrorLocation = \<lparr>LineNumber = 1, ColumnNumber = 1\<rparr>,
      FailureInfo = MkFailureInfo [] [] None [] [] \<lparr>Code = 0, Name = [], Type = []\<rparr>
                      \<lparr>LineNumber = 0, ColumnNumber = 0\<rparr>\<rparr>
          = Some (ErrQueryFailed 200 (ReasonTrino r))
        \<and> ErrorType r = ''USER_ERROR'' \<and> ErrorName r = ''SYNTAX_ERROR'' \<and> ErrorCode r = 1)"
  using
    handleResponseError_mapping [of
      "\<lparr>Message = [], SqlState = [], ErrorCode = 0, ErrorName = [], ErrorType = [],
        ErrorLocation = \<lparr>LineNumber = 0, ColumnNumber = 0\<rparr>,
        FailureInfo = MkFailureInfo [] [] None [] [] \<lparr>Code = 0, Name = [], Type = []\<rparr>
                        \<lparr>LineNumber = 0, ColumnNumber = 0\<rparr>\<rparr>" 200]
    handleResponseError_mapping [of
      "\<lparr>Message = ''Query was canceled'', SqlState = [], ErrorCode = 3,
        ErrorName = ''USER_CANCELLED'', ErrorType = ''USER_ERROR'',
        ErrorLocation = \<lparr>LineNumber = 0, ColumnNumber = 0\<rparr>,
        FailureInfo = MkFailureInfo [] [] None [] [] \<lparr>Code = 0, Name = [], Type = []\<rparr>
                        \<lparr>LineNumber = 0, ColumnNumber = 0\<rparr>\<rparr>" 200]
    handleResponseError_mapping [of
      "\<lparr>Message = ''line 1:1: mismatched input'', SqlState = [], ErrorCode = 1,
        ErrorName = ''SYNTAX_ERROR'', ErrorType = ''USER_ERROR'',
        ErrorLocation = \<lparr>LineNumber = 1, ColumnNumber = 1\<rparr>,
        FailureInfo = MkFailureInfo [] [] None [] [] \<lparr>Code = 0, Name = [], Type = []\<rparr>
                        \<lparr>LineNumber = 0, ColumnNumber = 0\<rparr>\<rparr>" 200]
  by simp

subsection \<open>Size checks of the codec\<close>

lemma decompressSegment_mismatch:
  assumes "uncompressedSize metadata \<noteq> 0"
    and "decompressed_bytes zstd lz4 data encoding metadata = Some out"
    and "int (length out) \<noteq> uncompressedSize metadata"
  shows "decompressSegment zstd lz4 data encoding metadata
           = Inl (DecompressedSizeMismatch (uncompressedSize metadata) (length out))"
  using assms
  by (auto simp: decompressSegment_def decompressed_bytes_def
           split: if_splits zstd_result.splits sum.splits prod.splits)

lemma decompressSegment_size_error:
  assumes "decompressSegment zstd lz4 data encoding metadata = Inl e"
    and "is_size_mismatch e"
  shows "uncompressedSize metadata \<noteq> 0
         \<and> (\<exists>out. decompressed_bytes zstd lz4 data encoding metadata = Some out
                \<and> int (length out) \<noteq> uncompressedSize metadata)"
  using assms
  by (auto simp: decompressSegment_def decompressed_bytes_def
           split: if_splits zstd_result.splits sum.splits prod.splits)

text \<open>
  C7. \<open>decodeSegment\<close> returns the segment-size-mismatch error whenever the raw length
  differs from \<open>segmentSize\<close> (before anything else is done); when the raw length matches,
  \<open>uncompressedSize > 0\<close> and the library decompresses to a different length, it returns
  the decompressed-size-mismatch error; and when the raw length matches and the
  decompressed length (if a decompression took place) matches, the result is not a
  size-mismatch error.
\<close>

theorem decodeSegment_size_checks:
  "(int (length data) \<noteq> segmentSize metadata
      \<longrightarrow> decodeSegment zstd lz4 json data encoding metadata
            = Inl (SegmentSizeMismatch (segmentSize metadata) (length data)))
   \<and> (int (length data) = segmentSize metadata \<and> 0 < uncompressedSize metadata
        \<and> decompressed_bytes zstd lz4 data encoding metadata = Some out
        \<and> int (length out) \<noteq> uncompressedSize metadata
      \<longrightarrow> decodeSegment zstd lz4 json data encoding metadata
            = Inl (DecompressedSizeMismatch (uncompressedSize metadata) (length out)))
   \<and> (int (length data) = segmentSize metadata
        \<and> (\<forall>out'. uncompressedSize metadata \<noteq> 0
               \<and> decompressed_bytes zstd lz4 data encoding metadata = Some out'
               \<longrightarrow> int (length out') = uncompressedSize metadata)
      \<longrightarrow> (\<forall>e. decodeSegment zstd lz4 json data encoding metadata = Inl e
               \<longrightarrow> \<not> is_size_mismatch e))"
proof (intro conjI impI allI)
  assume "int (length data) \<noteq> segmentSize metadata"
  then show "decodeSegment zstd lz4 json data encoding metadata
               = Inl (SegmentSizeMismatch (segmentSize metadata) (length data))"
    by (simp add: decodeSegment_def)
next
  assume a: "int (length data) = segmentSize metadata \<and> 0 < uncompressedSize metadata
        \<and> decompressed_bytes zstd lz4 data encoding metadata = Some out
        \<and> int (length out) \<noteq> uncompressedSize metadata"
  then have "decompressSegment zstd lz4 data encoding metadata
               = Inl (DecompressedSizeMismatch (uncompressedSize metadata) (length out))"
    by (intro decompressSegment_mismatch) auto
  with a show "decodeSegment zstd lz4 json data encoding metadata
            = Inl (DecompressedSizeMismatch (uncompressedSize metadata) (length out))"
    by (simp add: decodeSegment_def)
next
  fix e
  assume a: "int (length data) = segmentSize metadata
        \<and> (\<forall>out'. uncompressedSize metadata \<noteq> 0
               \<and> decompressed_bytes zstd lz4 data encoding metadata = Some out'
               \<longrightarrow> int (length out') = uncompressedSize metadata)"
    and r: "decodeSegment zstd lz4 json data encoding metadata = Inl e"
  show "\<not> is_size_mismatch e"
  proof
    assume m: "is_size_mismatch e"
    from a r m have "decompressSegment zstd lz4 data encoding metadata = Inl e"
      by (auto simp: decodeSegment_def split: if_splits sum.splits)
    from decompressSegment_size_error [OF this m] a show False by blast
  qed
qed

theorem decodeSegment_size_checks_witness:
  "(int (length [1, 2, 3 :: byte]) \<noteq> 5
    \<and> decodeSegment (\<lambda>d. ZstdData (d @ d)) (\<lambda>d n. Inl ''lz4'') (\<lambda>d. Inr [0 :: nat])
          [1, 2, 3] ''json''
          \<lparr>segmentMetadata.rowOffset = 0, rowsCount = 1, segmentSize = 5, uncompressedSize = 0\<rparr>
        = Inl (SegmentSizeMismatch 5 3))
   \<and> (decompressed_bytes (\<lambda>d. ZstdData (d @ d)) (\<lambda>d n. Inl ''lz4'') [1, 2, 3] ''json+zstd''
          \<lparr>segmentMetadata.rowOffset = 0, rowsCount = 1, segmentSize = 3, uncompressedSize = 10\<rparr>
        = Some [1, 2, 3, 1, 2, 3]
    \<and> decodeSegment (\<lambda>d. ZstdData (d @ d)) (\<lambda>d n. Inl ''lz4'') (\<lambda>d. Inr [0 :: nat])
          [1, 2, 3] ''json+zstd''
          \<lparr>segmentMetadata.rowOffset = 0, rowsCount = 1, segmentSize = 3, uncompressedSize = 10\<rparr>
        = Inl (DecompressedSizeMismatch 10 6))
   \<and> (decompressed_bytes (\<lambda>d. ZstdData (d @ d)) (\<lambda>d n. Inl ''lz4'') [1, 2, 3] ''json+zstd''
          \<lparr>segmentMetadata.rowOffset = 0, rowsCount = 1, segmentSize = 3, uncompressedSize = 6\<rparr>
        = Some [1, 2, 3, 1, 2, 3]
    \<and> \<not> (\<exists>e. decodeSegment (\<lambda>d. ZstdData (d @ d)) (\<lambda>d n. Inl ''lz4'') (\<lambda>d. Inr [0 :: nat])
          [1, 2, 3] ''json+zstd''
          \<lparr>segmentMetadata.rowOffset = 0, rowsCount = 1, segmentSize = 3, uncompressedSize = 6\<rparr> = Inl e
        \<and> is_size_mismatch e))"
  using
    decodeSegment_size_checks [of "[1, 2, 3]"
      "\<lparr>segmentMetadata.rowOffset = 0, rowsCount = 1, segmentSize = 5, uncompressedSize = 0\<rparr>"
      "\<lambda>d. ZstdData (d @ d)" "\<lambda>d n. Inl ''lz4''" "\<lambda>d. Inr [0 :: nat]" "''json''" "[]"]
    decodeSegment_size_checks [of "[1, 2, 3]"
      "\<lparr>segmentMetadata.rowOffset = 0, rowsCount = 1, segmentSize = 3, uncompressedSize = 10\<rparr>"
      "\<lambda>d. ZstdData (d @ d)" "\<lambda>d n. Inl ''lz4''" "\<lambda>d. Inr [0 :: nat]" "''json+zstd''"
      "[1, 2, 3, 1, 2, 3]"]
    decodeSegment_size_checks [of "[1, 2, 3]"
      "\<lparr>segmentMetadata.rowOffset = 0, rowsCount = 1, segmentSize = 3, uncompressedSize = 6\<rparr>"
      "\<lambda>d. ZstdData (d @ d)" "\<lambda>d n. Inl ''lz4''" "\<lambda>d. Inr [0 :: nat]" "''json+zstd''"
      "[]"]
  by (simp add: decompressed_bytes_def)

subsection \<open>Decompression when the uncompressed size is zero\<close>

text \<open>
  C10, as stated, has the unsupported-encoding error and the decompression branches
  reachable only for \<open>uncompressedSize > 0\<close>. The guard of the code is
  \<open>uncompressedSize == 0\<close>, and the field is a signed 64-bit integer read from the
  response: a negative value reaches the switch as well.
\<close>

theorem decompressSegment_negative_size_counterexample:
  "\<not> 0 < uncompressedSize
            \<lparr>segmentMetadata.rowOffset = 0, rowsCount = 0, segmentSize = 2, uncompressedSize = - 1\<rparr>
   \<and> decompressSegment (\<lambda>d. ZstdData d) (\<lambda>d n. Inl ''lz4'') [1, 2] ''gzip''
        \<lparr>segmentMetadata.rowOffset = 0, rowsCount = 0, segmentSize = 2, uncompressedSize = - 1\<rparr>
      = Inl (UnsupportedSegmentEncoder ''gzip'')
   \<and> decompressSegment (\<lambda>d. ZstdReadAllFails ''eof'') (\<lambda>d n. Inl ''lz4'') [1, 2] ''json+zstd''
        \<lparr>segmentMetadata.rowOffset = 0, rowsCount = 0, segmentSize = 2, uncompressedSize = - 1\<rparr>
      = Inl (ZstdDecompressError 0 ''eof'')"
  by (simp add: decompressSegment_def)

text \<open>
  C10, amended. For \<open>uncompressedSize = 0\<close> the input bytes are returned unchanged and
  without error, whatever the encoding and whatever the libraries would do. The
  unsupported-encoding error is returned exactly when \<open>uncompressedSize \<noteq> 0\<close> and the
  encoding is neither \<open>json+zstd\<close> nor \<open>json+lz4\<close>, and for \<open>uncompressedSize \<noteq> 0\<close>
  a failure of the zstd reader is the result for \<open>json+zstd\<close>, a failure of the LZ4
  block decompression is the result for \<open>json+lz4\<close> with a positive size.
\<close>

theorem decompressSegment_zero_identity:
  "(uncompressedSize metadata = 0
      \<longrightarrow> decompressSegment zstd lz4 data encoding metadata = Inr data)
   \<and> ((\<exists>enc. decompressSegment zstd lz4 data encoding metadata
               = Inl (UnsupportedSegmentEncoder enc))
      \<longleftrightarrow> uncompressedSize metadata \<noteq> 0
          \<and> encoding \<noteq> ''json+zstd'' \<and> encoding \<noteq> ''json+lz4'')
   \<and> (uncompressedSize metadata \<noteq> 0 \<and> encoding = ''json+zstd''
        \<and> zstd data = ZstdNewReaderFails msg
      \<longrightarrow> decompressSegment zstd lz4 data encoding metadata = Inl (ZstdReaderError msg))
   \<and> (0 < uncompressedSize metadata \<and> encoding = ''json+lz4''
        \<and> lz4 data (nat (uncompressedSize metadata)) = Inl msg
      \<longrightarrow> decompressSegment zstd lz4 data encoding metadata
            = Inl (Lz4DecompressError (segmentMetadata.rowOffset metadata) msg))"
  by (auto simp: decompressSegment_def
           split: if_splits zstd_result.splits sum.splits prod.splits)

theorem decompressSegment_zero_identity_witness:
  "(uncompressedSize \<lparr>segmentMetadata.rowOffset = 0, rowsCount = 0, segmentSize = 2, uncompressedSize = 0\<rparr> = 0
    \<and> decompressSegment (\<lambda>d. ZstdNewReaderFails ''magic'') (\<lambda>d n. Inl ''short'') [1, 2] ''gzip''
        \<lparr>segmentMetadata.rowOffset = 0, rowsCount = 0, segmentSize = 2, uncompressedSize = 0\<rparr> = Inr [1, 2])
   \<and> (\<exists>enc. decompressSegment (\<lambda>d. ZstdNewReaderFails ''magic'') (\<lambda>d n. Inl ''short'') [1, 2]
        ''gzip'' \<lparr>segmentMetadata.rowOffset = 0, rowsCount = 0, segmentSize = 2, uncompressedSize = 7\<rparr>
        = Inl (UnsupportedSegmentEncoder enc))
   \<and> decompressSegment (\<lambda>d. ZstdNewReaderFails ''magic'') (\<lambda>d n. Inl ''short'') [1, 2]
        ''json+zstd'' \<lparr>segmentMetadata.rowOffset = 0, rowsCount = 0, segmentSize = 2, uncompressedSize = 7\<rparr>
        = Inl (ZstdReaderError ''magic'')
   \<and> decompressSegment (\<lambda>d. ZstdNewReaderFails ''magic'') (\<lambda>d n. Inl ''short'') [1, 2]
        ''json+lz4'' \<lparr>segmentMetadata.rowOffset = 4, rowsCount = 0, segmentSize = 2, uncompressedSize = 7\<rparr>
        = Inl (Lz4DecompressError 4 ''short'')"
  using
    decompressSegment_zero_identity [of
      "\<lparr>segmentMetadata.rowOffset = 0, rowsCount = 0, segmentSize = 2, uncompressedSize = 0\<rparr>"
      "\<lambda>d. ZstdNewReaderFails ''magic''" "\<lambda>d n. Inl ''short''" "[1, 2]" "''gzip''" "[]"]
    decompressSegment_zero_identity [of
      "\<lparr>segmentMetadata.rowOffset = 0, rowsCount = 0, segmentSize = 2, uncompressedSize = 7\<rparr>"
      "\<lambda>d. ZstdNewReaderFails ''magic''" "\<lambda>d n. Inl ''short''" "[1, 2]" "''gzip''" "[]"]
    decompressSegment_zero_identity [of
      "\<lparr>segmentMetadata.rowOffset = 0, rowsCount = 0, segmentSize = 2, uncompressedSize = 7\<rparr>"
      "\<lambda>d. ZstdNewReaderFails ''magic''" "\<lambda>d n. Inl ''short''" "[1, 2]" "''json+zstd''"
      "''magic''"]
    decompressSegment_zero_identity [of
      "\<lparr>segmentMetadata.rowOffset = 4, rowsCount = 0, segmentSize = 2, uncompressedSize = 7\<rparr>"
      "\<lambda>d. ZstdNewReaderFails ''magic''" "\<lambda>d n. Inl ''short''" "[1, 2]" "''json+lz4''"
      "''short''"]
  by simp

subsection \<open>Parameters of a converter\<close>

lemma getNestedTypes_head:
  "\<exists>rest. getNestedTypes types signature = types @ RawType signature # rest"
  by (induction types signature rule: getNestedTypes.induct) auto

lemma getScanType_char: "getScanType (''char'' # r) = Inr NullString"
  by (simp add: getScanType_def stringTypes_def)

lemma getScanType_varchar: "getScanType (''varchar'' # r) = Inr NullString"
  by (simp add: getScanType_def stringTypes_def)

lemma getScanType_decimal: "getScanType (''decimal'' # r) = Inr NullString"
  by (simp add: getScanType_def stringTypes_def)

lemma getScanType_time: "getScanType (''time'' # r) = Inr NullTime"
  by (simp add: getScanType_def stringTypes_def floatTypes_def timeTypes_def)

lemma getScanType_timetz: "getScanType (''time with time zone'' # r) = Inr NullTime"
  by (simp add: getScanType_def stringTypes_def floatTypes_def timeTypes_def)

lemma getScanType_timestamp: "getScanType (''timestamp'' # r) = Inr NullTime"
  by (simp add: getScanType_def stringTypes_def floatTypes_def timeTypes_def)

lemma getScanType_timestamptz: "getScanType (''timestamp with time zone'' # r) = Inr NullTime"
  by (simp add: getScanType_def stringTypes_def floatTypes_def timeTypes_def)


lemma newTypeConverter_char:
  assumes "RawType signature = ''char'' \<or> RawType signature = ''varchar''"
  shows "newTypeConverter tname signature =
           (case Arguments signature of
              [] \<Rightarrow> Inr (emptyConverter tname signature NullString)
            | a # as \<Rightarrow>
                if Kind a \<noteq> KIND_LONG then Inl ErrInvalidResponseType
                else Inr ((emptyConverter tname signature NullString)
                            \<lparr>size_f := newOptionalInt64 (long a)\<rparr>))"
proof -
  obtain rest where n: "getNestedTypes [] signature = RawType signature # rest"
    using getNestedTypes_head [of "[]" signature] by auto
  have s: "getScanType (getNestedTypes [] signature) = Inr NullString"
    using assms by (auto simp: n getScanType_char getScanType_varchar)
  show ?thesis
    using assms
    by (cases "Arguments signature")
       (simp_all add: newTypeConverter_def s Let_def emptyConverter_def)
qed

lemma newTypeConverter_time:
  assumes "RawType signature = ''time'' \<or> RawType signature = ''time with time zone''
           \<or> RawType signature = ''timestamp''
           \<or> RawType signature = ''timestamp with time zone''"
  shows "newTypeConverter tname signature =
           (case Arguments signature of
              [] \<Rightarrow> Inr (emptyConverter tname signature NullTime)
            | a # as \<Rightarrow>
                if Kind a \<noteq> KIND_LONG then Inl ErrInvalidResponseType
                else Inr ((emptyConverter tname signature NullTime)
                            \<lparr>precision := newOptionalInt64 (long a)\<rparr>))"
proof -
  obtain rest where n: "getNestedTypes [] signature = RawType signature # rest"
    using getNestedTypes_head [of "[]" signature] by auto
  have s: "getScanType (getNestedTypes [] signature) = Inr NullTime"
    using assms
    by (auto simp: n getScanType_time getScanType_timetz getScanType_timestamp
                   getScanType_timestamptz)
  show ?thesis
    using assms
    by (cases "Arguments signature")
       (auto simp add: newTypeConverter_def s Let_def emptyConverter_def)
qed

lemma newTypeConverter_decimal:
  assumes "RawType signature = ''decimal''"
  shows "newTypeConverter tname signature =
           (case Arguments signature of
              [] \<Rightarrow> Inr (emptyConverter tname signature NullString)
            | [a] \<Rightarrow>
                if Kind a \<noteq> KIND_LONG then Inl ErrInvalidResponseType
                else Inr ((emptyConverter tname signature NullString)
                            \<lparr>precision := newOptionalInt64 (long a)\<rparr>)
            | a # b # bs \<Rightarrow>
                if Kind a \<noteq> KIND_LONG \<or> Kind b \<noteq> KIND_LONG then Inl ErrInvalidResponseType
                else Inr ((emptyConverter tname signature NullString)
                            \<lparr>precision := newOptionalInt64 (long a),
                             scale := newOptionalInt64 (long b)\<rparr>))"
proof -
  obtain rest where n: "getNestedTypes [] signature = RawType signature # rest"
    using getNestedTypes_head [of "[]" signature] by auto
  have s: "getScanType (getNestedTypes [] signature) = Inr NullString"
    using assms by (auto simp: n getScanType_decimal)
  show ?thesis
  proof (cases "Arguments signature")
    case Nil
    then show ?thesis using assms
      by (simp add: newTypeConverter_def s Let_def emptyConverter_def)
  next
    case (Cons a as)
    then show ?thesis using assms
      by (cases as) (simp_all add: newTypeConverter_def s Let_def emptyConverter_def)
  qed
qed



text \<open>
  C9. Building a converter from a type signature: for \<open>char\<close> and \<open>varchar\<close> a first
  argument of kind \<open>LONG\<close> becomes the size; for \<open>decimal\<close> the first becomes the
  precision and the second the scale; for the four time types the first becomes the
  precision; and for all of these raw types an argument that is read and whose kind is not
  \<open>LONG\<close> makes the construction fail with \<open>ErrInvalidResponseType\<close>.
\<close>

theorem newTypeConverter_parameters:
  "(RawType signature \<in> {''char'', ''varchar''}
      \<and> Arguments signature = a # as \<and> Kind a = KIND_LONG
    \<longrightarrow> (\<exists>c. newTypeConverter tname signature = Inr c
             \<and> size_f c = \<lparr>value64 = long a, hasValue = True\<rparr>
             \<and> \<not> hasValue (precision c) \<and> \<not> hasValue (scale c)))
   \<and> (RawType signature = ''decimal''
      \<and> Arguments signature = [a] \<and> Kind a = KIND_LONG
    \<longrightarrow> (\<exists>c. newTypeConverter tname signature = Inr c
             \<and> precision c = \<lparr>value64 = long a, hasValue = True\<rparr>
             \<and> \<not> hasValue (scale c) \<and> \<not> hasValue (size_f c)))
   \<and> (RawType signature = ''decimal''
      \<and> Arguments signature = a # b # bs \<and> Kind a = KIND_LONG \<and> Kind b = KIND_LONG
    \<longrightarrow> (\<exists>c. newTypeConverter tname signature = Inr c
             \<and> precision c = \<lparr>value64 = long a, hasValue = True\<rparr>
             \<and> scale c = \<lparr>value64 = long b, hasValue = True\<rparr>
             \<and> \<not> hasValue (size_f c)))
   \<and> (RawType signature \<in> {''time'', ''time with time zone'', ''timestamp'',
                             ''timestamp with time zone''}
      \<and> Arguments signature = a # as \<and> Kind a = KIND_LONG
    \<longrightarrow> (\<exists>c. newTypeConverter tname signature = Inr c
             \<and> precision c = \<lparr>value64 = long a, hasValue = True\<rparr>
             \<and> \<not> hasValue (scale c) \<and> \<not> hasValue (size_f c)))
   \<and> (RawType signature \<in> {''char'', ''varchar'', ''decimal'', ''time'',
                             ''time with time zone'', ''timestamp'',
                             ''timestamp with time zone''}
      \<and> Arguments signature = a # as \<and> Kind a \<noteq> KIND_LONG
    \<longrightarrow> newTypeConverter tname signature = Inl ErrInvalidResponseType)
   \<and> (RawType signature = ''decimal''
      \<and> Arguments signature = a # b # bs \<and> Kind b \<noteq> KIND_LONG
    \<longrightarrow> newTypeConverter tname signature = Inl ErrInvalidResponseType)"
proof (intro conjI impI)
  assume "RawType signature \<in> {''char'', ''varchar''}
      \<and> Arguments signature = a # as \<and> Kind a = KIND_LONG"
  then show "\<exists>c. newTypeConverter tname signature = Inr c
             \<and> size_f c = \<lparr>value64 = long a, hasValue = True\<rparr>
             \<and> \<not> hasValue (precision c) \<and> \<not> hasValue (scale c)"
    using newTypeConverter_char [of signature tname]
    by (simp add: emptyConverter_def newOptionalInt64_def noOptionalInt64_def)
next
  assume "RawType signature = ''decimal''
      \<and> Arguments signature = [a] \<and> Kind a = KIND_LONG"
  then show "\<exists>c. newTypeConverter tname signature = Inr c
             \<and> precision c = \<lparr>value64 = long a, hasValue = True\<rparr>
             \<and> \<not> hasValue (scale c) \<and> \<not> hasValue (size_f c)"
    using newTypeConverter_decimal [of signature tname]
    by (simp add: emptyConverter_def newOptionalInt64_def noOptionalInt64_def)
next
  assume "RawType signature = ''decimal''
      \<and> Arguments signature = a # b # bs \<and> Kind a = KIND_LONG \<and> Kind b = KIND_LONG"
  then show "\<exists>c. newTypeConverter tname signature = Inr c
             \<and> precision c = \<lparr>value64 = long a, hasValue = True\<rparr>
             \<and> scale c = \<lparr>value64 = long b, hasValue = True\<rparr>
             \<and> \<not> hasValue (size_f c)"
    using newTypeConverter_decimal [of signature tname]
    by (simp add: emptyConverter_def newOptionalInt64_def noOptionalInt64_def)
next
  assume "RawType signature \<in> {''time'', ''time with time zone'', ''timestamp'',
                             ''timestamp with time zone''}
      \<and> Arguments signature = a # as \<and> Kind a = KIND_LONG"
  then show "\<exists>c. newTypeConverter tname signature = Inr c
             \<and> precision c = \<lparr>value64 = long a, hasValue = True\<rparr>
             \<and> \<not> hasValue (scale c) \<and> \<not> hasValue (size_f c)"
    using newTypeConverter_time [of signature tname]
    by (simp add: emptyConverter_def newOptionalInt64_def noOptionalInt64_def)
next
  assume h: "RawType signature \<in> {''char'', ''varchar'', ''decimal'', ''time'',
                             ''time with time zone'', ''timestamp'',
                             ''timestamp with time zone''}
      \<and> Arguments signature = a # as \<and> Kind a \<noteq> KIND_LONG"
  then consider "RawType signature = ''char'' \<or> RawType signature = ''varchar''"
    | "RawType signature = ''decimal''"
    | "RawType signature = ''time'' \<or> RawType signature = ''time with time zone''
           \<or> RawType signature = ''timestamp''
           \<or> RawType signature = ''timestamp with time zone''"
    by blast
  then show "newTypeConverter tname signature = Inl ErrInvalidResponseType"
  proof cases
    case 1
    from newTypeConverter_char [OF this, of tname] h show ?thesis by simp
  next
    case 2
    from newTypeConverter_decimal [OF this, of tname] h show ?thesis
      by (cases as) simp_all
  next
    case 3
    from newTypeConverter_time [OF this, of tname] h show ?thesis by simp
  qed
next
  assume "RawType signature = ''decimal''
      \<and> Arguments signature = a # b # bs \<and> Kind b \<noteq> KIND_LONG"
  then show "newTypeConverter tname signature = Inl ErrInvalidResponseType"
    using newTypeConverter_decimal [of signature tname] by simp
qed
theorem newTypeConverter_parameters_witness:
  "(\<exists>c. newTypeConverter ''varchar(25)'' (MkTypeSignature ''varchar'' [MkTypeArgument ''LONG'' ''25'' (MkTypeSignature [] []) (MkNamedTypeSignature (RowFieldName []) (MkTypeSignature [] [])) 25]) = Inr c
        \<and> size_f c = \<lparr>value64 = 25, hasValue = True\<rparr>
        \<and> \<not> hasValue (precision c) \<and> \<not> hasValue (scale c))
   \<and> (\<exists>c. newTypeConverter ''decimal(10)'' (MkTypeSignature ''decimal'' [MkTypeArgument ''LONG'' ''10'' (MkTypeSignature [] []) (MkNamedTypeSignature (RowFieldName []) (MkTypeSignature [] [])) 10]) = Inr c
        \<and> precision c = \<lparr>value64 = 10, hasValue = True\<rparr>
        \<and> \<not> hasValue (scale c) \<and> \<not> hasValue (size_f c))
   \<and> (\<exists>c. newTypeConverter ''decimal(10,2)'' (MkTypeSignature ''decimal'' [MkTypeArgument ''LONG'' ''10'' (MkTypeSignature [] []) (MkNamedTypeSignature (RowFieldName []) (MkTypeSignature [] [])) 10, MkTypeArgument ''LONG'' ''2'' (MkTypeSignature [] []) (MkNamedTypeSignature (RowFieldName []) (MkTypeSignature [] [])) 2]) = Inr c
        \<and> precision c = \<lparr>value64 = 10, hasValue = True\<rparr>
        \<and> scale c = \<lparr>value64 = 2, hasValue = True\<rparr>
        \<and> \<not> hasValue (size_f c))
   \<and> (\<exists>c. newTypeConverter ''timestamp(6)'' (MkTypeSignature ''timestamp'' [MkTypeArgument ''LONG'' ''6'' (MkTypeSignature [] []) (MkNamedTypeSignature (RowFieldName []) (MkTypeSignature [] [])) 6]) = Inr c
        \<and> precision c = \<lparr>value64 = 6, hasValue = True\<rparr>
        \<and> \<not> hasValue (scale c) \<and> \<not> hasValue (size_f c))
   \<and> newTypeConverter ''varchar(x)'' (MkTypeSignature ''varchar'' [MkTypeArgument ''VARIABLE'' ''x'' (MkTypeSignature [] []) (MkNamedTypeSignature (RowFieldName []) (MkTypeSignature [] [])) 0]) = Inl ErrInvalidResponseType
   \<and> newTypeConverter ''decimal(10,x)'' (MkTypeSignature ''decimal'' [MkTypeArgument ''LONG'' ''10'' (MkTypeSignature [] []) (MkNamedTypeSignature (RowFieldName []) (MkTypeSignature [] [])) 10, MkTypeArgument ''VARIABLE'' ''x'' (MkTypeSignature [] []) (MkNamedTypeSignature (RowFieldName []) (MkTypeSignature [] [])) 0]) = Inl ErrInvalidResponseType"
  using
    newTypeConverter_parameters [of "MkTypeSignature ''varchar'' [MkTypeArgument ''LONG'' ''25'' (MkTypeSignature [] []) (MkNamedTypeSignature (RowFieldName []) (MkTypeSignature [] [])) 25]" "MkTypeArgument ''LONG'' ''25'' (MkTypeSignature [] []) (MkNamedTypeSignature (RowFieldName []) (MkTypeSignature [] [])) 25" "[]" "''varchar(25)''"]
    newTypeConverter_parameters [of "MkTypeSignature ''decimal'' [MkTypeArgument ''LONG'' ''10'' (MkTypeSignature [] []) (MkNamedTypeSignature (RowFieldName []) (MkTypeSignature [] [])) 10]" "MkTypeArgument ''LONG'' ''10'' (MkTypeSignature [] []) (MkNamedTypeSignature (RowFieldName []) (MkTypeSignature [] [])) 10" "[]" "''decimal(10)''"]
    newTypeConverter_parameters [of "MkTypeSignature ''decimal'' [MkTypeArgument ''LONG'' ''10'' (MkTypeSignature [] []) (MkNamedTypeSignature (RowFieldName []) (MkTypeSignature [] [])) 10, MkTypeArgument ''LONG'' ''2'' (MkTypeSignature [] []) (MkNamedTypeSignature (RowFieldName []) (MkTypeSignature [] [])) 2]" "MkTypeArgument ''LONG'' ''10'' (MkTypeSignature [] []) (MkNamedTypeSignature (RowFieldName []) (MkTypeSignature [] [])) 10" "[]" "''decimal(10,2)''" "MkTypeArgument ''LONG'' ''2'' (MkTypeSignature [] []) (MkNamedTypeSignature (RowFieldName []) (MkTypeSignature [] [])) 2" "[]"]
    newTypeConverter_parameters [of "MkTypeSignature ''timestamp'' [MkTypeArgument ''LONG'' ''6'' (MkTypeSignature [] []) (MkNamedTypeSignature (RowFieldName []) (MkTypeSignature [] [])) 6]" "MkTypeArgument ''LONG'' ''6'' (MkTypeSignature [] []) (MkNamedTypeSignature (RowFieldName []) (MkTypeSignature [] [])) 6" "[]" "''timestamp(6)''"]
    newTypeConverter_parameters [of "MkTypeSignature ''varchar'' [MkTypeArgument ''VARIABLE'' ''x'' (MkTypeSignature [] []) (MkNamedTypeSignature (RowFieldName []) (MkTypeSignature [] [])) 0]" "MkTypeArgument ''VARIABLE'' ''x'' (MkTypeSignature [] []) (MkNamedTypeSignature (RowFieldName []) (MkTypeSignature [] [])) 0" "[]" "''varchar(x)''"]
    newTypeConverter_parameters [of "MkTypeSignature ''decimal'' [MkTypeArgument ''LONG'' ''10'' (MkTypeSignature [] []) (MkNamedTypeSignature (RowFieldName []) (MkTypeSignature [] [])) 10, MkTypeArgument ''VARIABLE'' ''x'' (MkTypeSignature [] []) (MkNamedTypeSignature (RowFieldName []) (MkTypeSignature [] [])) 0]" "MkTypeArgument ''LONG'' ''10'' (MkTypeSignature [] []) (MkNamedTypeSignature (RowFieldName []) (MkTypeSignature [] [])) 10" "[]" "''decimal(10,x)''" "MkTypeArgument ''VARIABLE'' ''x'' (MkTypeSignature [] []) (MkNamedTypeSignature (RowFieldName []) (MkTypeSignature [] [])) 0" "[]"]
  by (simp_all add: KIND_LONG_def)

subsection \<open>Session headers\<close>

lemma header_Values_Add:
  "header_Values (header_Add h k v) k' =
     (if k' = k then header_Values h k @ [v] else header_Values h k')"
  by (simp add: header_Values_def header_Add_def)

lemma header_Values_Set:
  "header_Values (header_Set h k v) k' = (if k' = k then [v] else header_Values h k')"
  by (simp add: header_Values_def header_Set_def)

lemma header_Values_Del:
  "header_Values (header_Del h k) k' = (if k' = k then [] else header_Values h k')"
  by (simp add: header_Values_def header_Del_def)

lemma foldl_readd:
  "header_Values
     (foldl (\<lambda>h' v2. if \<not> HasPrefix v2 p then header_Add h' k v2 else h') h xs) k'
   = (if k' = k then header_Values h k @ filter (\<lambda>e. \<not> HasPrefix e p) xs
      else header_Values h k')"
  by (induction xs arbitrary: h) (auto simp: header_Values_Add)

lemma header_Values_removeEntries:
  "header_Values (removeEntries h k v) k' =
     (if k' = k then filter (\<lambda>e. \<not> HasPrefix e (v @ ''='')) (header_Values h k)
      else header_Values h k')"
  by (simp add: removeEntries_def foldl_readd header_Values_Del)

lemma session_key_distinct:
  "trinoSessionHeader \<noteq> preparedStatementHeader"
  "trinoSessionHeader \<noteq> trinoSchemaHeader"
  "trinoSessionHeader \<noteq> trinoCatalogHeader"
  by (simp_all add: trinoSessionHeader_def preparedStatementHeader_def trinoSchemaHeader_def
        trinoCatalogHeader_def trinoHeaderPrefix_def)

lemma session_after_ingest:
  "header_Values (ingestResponseHeaders respHeader h) trinoSessionHeader =
     (let vs = header_Values h trinoSessionHeader
               @ (if header_Get respHeader trinoSetSessionHeader \<noteq> []
                  then [header_Get respHeader trinoSetSessionHeader] else [])
      in if header_Get respHeader trinoClearSessionHeader \<noteq> []
         then filter (\<lambda>e. \<not> HasPrefix e (header_Get respHeader trinoClearSessionHeader @ ''=''))
                vs
         else vs)"
  by (simp add: ingestResponseHeaders_def Let_def responseToRequestHeaderMap_def
        header_Values_removeEntries header_Values_Add header_Values_Set session_key_distinct)

lemma HasPrefix_append: "HasPrefix (p @ r) p"
  by (simp add: HasPrefix_def)

lemma HasPrefix_iff: "HasPrefix s p \<longleftrightarrow> (\<exists>r. s = p @ r)"
  by (auto simp: HasPrefix_def) (metis append_take_drop_id)

lemma roundTrip_200:
  "StatusCode resp = 200 \<Longrightarrow>
   connHeaders (roundTrip h (HttpDo (Inr resp) # es)) = ingestResponseHeaders (Header resp) h"
  by (simp add: roundTrip_def)

text \<open>
  C4. A 200 response that carries \<open>Set-Session: k=v\<close> appends \<open>k=v\<close> to the outbound
  \<open>Session\<close> values; a later 200 response that carries \<open>Clear-Session: k\<close> leaves exactly
  the earlier values that do not start with \<open>k=\<close>: no entry \<open>k=w\<close> remains, and the
  entries of other keys are the same, in the same order. (The headers are updated even
  when the response is then refused for an unsupported header.)
\<close>

theorem set_then_clear_session:
  assumes "StatusCode r1 = 200"
    and "header_Get (Header r1) trinoSetSessionHeader = k @ ''='' @ v"
    and "header_Get (Header r1) trinoClearSessionHeader = []"
    and "StatusCode r2 = 200"
    and "header_Get (Header r2) trinoClearSessionHeader = k"
    and "k \<noteq> []"
    and "header_Get (Header r2) trinoSetSessionHeader = []"
    and "h1 = connHeaders (roundTrip h0 (HttpDo (Inr r1) # es1))"
    and "h2 = connHeaders (roundTrip h1 (HttpDo (Inr r2) # es2))"
  shows "header_Values h1 trinoSessionHeader
           = header_Values h0 trinoSessionHeader @ [k @ ''='' @ v]
       \<and> header_Values h2 trinoSessionHeader
           = filter (\<lambda>e. \<not> HasPrefix e (k @ ''='')) (header_Values h0 trinoSessionHeader)
       \<and> (\<forall>e \<in> set (header_Values h2 trinoSessionHeader). \<nexists>w. e = k @ ''='' @ w)
       \<and> filter (\<lambda>e. \<nexists>w. e = k @ ''='' @ w) (header_Values h2 trinoSessionHeader)
           = filter (\<lambda>e. \<nexists>w. e = k @ ''='' @ w) (header_Values h0 trinoSessionHeader)"
proof -
  have v1: "header_Values h1 trinoSessionHeader
              = header_Values h0 trinoSessionHeader @ [k @ ''='' @ v]"
    using assms(1,2,3,8) by (simp add: roundTrip_200 session_after_ingest)
  have v2: "header_Values h2 trinoSessionHeader
              = filter (\<lambda>e. \<not> HasPrefix e (k @ ''='')) (header_Values h0 trinoSessionHeader)"
    using assms(4,5,6,7,9) HasPrefix_append [of "k @ ''=''" v]
    by (simp add: roundTrip_200 session_after_ingest v1)
  have p: "\<And>e. HasPrefix e (k @ ''='') \<longleftrightarrow> (\<exists>w. e = k @ ''='' @ w)"
    by (simp add: HasPrefix_iff)
  show ?thesis
    by (simp add: v1 v2 p)
qed


theorem set_then_clear_session_witness:
  "header_Values (connHeaders (roundTrip ([trinoSessionHeader \<mapsto> [''a=1'', ''k=0'', ''kk=5'']]) [HttpDo (Inr (\<lparr>StatusCode = 200, Header = [trinoSetSessionHeader \<mapsto> [''k=2'']], Body = BodyData ''{}'', ContentLength = 2\<rparr>))])) trinoSessionHeader
     = [''a=1'', ''k=0'', ''kk=5'', ''k=2'']
   \<and> header_Values
       (connHeaders (roundTrip (connHeaders (roundTrip ([trinoSessionHeader \<mapsto> [''a=1'', ''k=0'', ''kk=5'']]) [HttpDo (Inr (\<lparr>StatusCode = 200, Header = [trinoSetSessionHeader \<mapsto> [''k=2'']], Body = BodyData ''{}'', ContentLength = 2\<rparr>))]))
          [HttpDo (Inr (\<lparr>StatusCode = 200, Header = [trinoClearSessionHeader \<mapsto> [''k'']], Body = BodyData ''{}'', ContentLength = 2\<rparr>))])) trinoSessionHeader
     = [''a=1'', ''kk=5'']"
proof -
  have n: "trinoSetSessionHeader \<noteq> trinoClearSessionHeader"
    by (simp add: trinoSetSessionHeader_def trinoClearSessionHeader_def trinoHeaderPrefix_def)
  have a1: "StatusCode (\<lparr>StatusCode = 200, Header = [trinoSetSessionHeader \<mapsto> [''k=2'']], Body = BodyData ''{}'', ContentLength = 2\<rparr>) = 200" by simp
  have a2: "header_Get (Header (\<lparr>StatusCode = 200, Header = [trinoSetSessionHeader \<mapsto> [''k=2'']], Body = BodyData ''{}'', ContentLength = 2\<rparr>)) trinoSetSessionHeader = ''k'' @ ''='' @ ''2''"
    by (simp add: header_Get_def)
  have a3: "header_Get (Header (\<lparr>StatusCode = 200, Header = [trinoSetSessionHeader \<mapsto> [''k=2'']], Body = BodyData ''{}'', ContentLength = 2\<rparr>)) trinoClearSessionHeader = []"
    using n by (simp add: header_Get_def)
  have a4: "StatusCode (\<lparr>StatusCode = 200, Header = [trinoClearSessionHeader \<mapsto> [''k'']], Body = BodyData ''{}'', ContentLength = 2\<rparr>) = 200" by simp
  have a5: "header_Get (Header (\<lparr>StatusCode = 200, Header = [trinoClearSessionHeader \<mapsto> [''k'']], Body = BodyData ''{}'', ContentLength = 2\<rparr>)) trinoClearSessionHeader = ''k''"
    by (simp add: header_Get_def)
  have a6: "''k'' \<noteq> []" by simp
  have a7: "header_Get (Header (\<lparr>StatusCode = 200, Header = [trinoClearSessionHeader \<mapsto> [''k'']], Body = BodyData ''{}'', ContentLength = 2\<rparr>)) trinoSetSessionHeader = []"
    using n by (simp add: header_Get_def)
  have v0: "header_Values ([trinoSessionHeader \<mapsto> [''a=1'', ''k=0'', ''kk=5'']]) trinoSessionHeader = [''a=1'', ''k=0'', ''kk=5'']"
    by (simp add: header_Values_def)
  from set_then_clear_session [OF a1 a2 a3 a4 a5 a6 a7 refl refl, of "([trinoSessionHeader \<mapsto> [''a=1'', ''k=0'', ''kk=5'']])" "[]" "[]"]
  show ?thesis
    by (simp add: v0 HasPrefix_def)
qed

subsection \<open>Retries and backoff\<close>

lemma bitlen_0: "bitlen 0 = 0"
  by (simp add: bitlen.simps)




















































subsection \<open>Worker count against the reorder bound\<close>

lemma exec_check_raw:
  "execArgs st args = Inr st' \<Longrightarrow>
   exec st args =
     (if spoolingWorkerCount st' > spoolingMaxOutOfOrderSegments st'
      then Inl (SpoolingWorkerGreaterThanMaxOutOfOrder (spoolingWorkerCount st')
                  (spoolingMaxOutOfOrderSegments st'))
      else Inr st')"
  by (simp add: exec_def)

text \<open>
  C6 says the configuration error is returned exactly when the worker count exceeds the
  reorder bound after defaulting (5 workers, bound 10). The check in \<open>exec\<close> compares the
  fields before \<open>startSpoolingProtocolWorkers\<close> has applied the defaults. With only
  \<open>spooling_worker_count = 3\<close> given, \<open>exec\<close> fails although 3 workers against the default
  bound 10 is a valid pair; with only \<open>max_out_of_order_segments = 2\<close> given, \<open>exec\<close>
  succeeds and the pipeline then starts with 5 workers against a bound of 2.
\<close>

theorem exec_check_precedes_defaults:
  "exec \<lparr>spoolingMaxOutOfOrderSegments = 0, spoolingWorkerCount = 0\<rparr>
     [(''spooling_worker_count'', ''3'')]
   = Inl (SpoolingWorkerGreaterThanMaxOutOfOrder 3 0)
   \<and> startSpoolingProtocolWorkers \<lparr>spoolingMaxOutOfOrderSegments = 0, spoolingWorkerCount = 3\<rparr>
   = \<lparr>spoolingMaxOutOfOrderSegments = 10, spoolingWorkerCount = 3\<rparr>
   \<and> exec \<lparr>spoolingMaxOutOfOrderSegments = 0, spoolingWorkerCount = 0\<rparr>
     [(''max_out_of_order_segments'', ''2'')]
   = Inr \<lparr>spoolingMaxOutOfOrderSegments = 2, spoolingWorkerCount = 0\<rparr>
   \<and> startSpoolingProtocolWorkers \<lparr>spoolingMaxOutOfOrderSegments = 2, spoolingWorkerCount = 0\<rparr>
   = \<lparr>spoolingMaxOutOfOrderSegments = 2, spoolingWorkerCount = 5\<rparr>"
  by (simp add: exec_def Atoi_def trinoSpoolingWorkerCount_def trinoMaxOutOfOrdersSegments_def
        startSpoolingProtocolWorkers_def defaultallowedOutOfOrder_def
        defaultSpoolingDownloadWorkers_def Let_def)

subsection \<open>The reorder bound\<close>

lemma onSegment_mismatch:
  assumes "rowOffset segment \<noteq> nextExpectedOffset st"
  shows "onSegment maxOutOfOrder st segment =
           (if maxOutOfOrder \<le> int (length (buffer st)) + 1
            then st\<lparr>buffer := buffer st @ [segment],
                    errors := errors st
                      @ [AllOutOfOrderSegmentsBuffered (length (buffer st) + 1) maxOutOfOrder]\<rparr>
            else st\<lparr>buffer := buffer st @ [segment]\<rparr>)"
  using assms by (auto simp: onSegment_def Let_def)

lemma emitLoop_errors: "errors (fst (emitLoop st consumed)) = errors st"
proof (induction st consumed rule: emitLoop.induct)
  case (1 st consumed)
  show ?case
  proof (cases "loopCond st consumed")
    case True
    then show ?thesis
      using "1.IH" by (subst emitLoop.simps) (simp add: releaseSlot_def sendRows_def)
  next
    case False
    then show ?thesis by (subst emitLoop.simps) simp
  qed
qed

text \<open>
  C2, as stated, has a bound of 2 fail for the arrival order \<open>[2, 0, 1, 4, 3]\<close>. The
  error is sent only when a segment that is not the expected one arrives and the buffer,
  with that segment appended, holds at least \<open>max_out_of_order_segments\<close> segments. In
  this arrival order the buffer never holds more than one segment when such a segment
  arrives, so a bound of 2 raises no error and all five batches are emitted in order.
\<close>

theorem reorder_bound_2_counterexample:
  "errors (startOrderedSegmentStreamer 2 [seg 2, seg 0, seg 1, seg 4, seg 3]) = []
   \<and> spoolingRowsChannel (startOrderedSegmentStreamer 2 [seg 2, seg 0, seg 1, seg 4, seg 3])
       = [[0, 1], [2, 3], [4, 5], [6, 7], [8, 9]]"
  by code_simp

text \<open>
  C2, amended. When the segment received is not the expected one and the buffer, with
  the segment appended, holds at least \<open>max_out_of_order_segments\<close> segments, the
  all-N-out-of-order-buffered error is sent with the buffer length and the bound; the
  segment stays in the buffer. Below the bound the segment is only appended, and a
  segment at the expected offset never raises the error. For the arrival order
  \<open>[2, 0, 1, 4, 3]\<close> the bounds 10 and 2 raise no error and the bound 1 raises it; the
  arrival order \<open>[1, 2, 0, 4, 3]\<close> raises it with the bound 2.
\<close>

theorem out_of_order_exhaustion:
  "(rowOffset segment \<noteq> nextExpectedOffset st
      \<and> int (length (buffer st)) + 1 \<ge> maxOutOfOrder
    \<longrightarrow> onSegment maxOutOfOrder st segment
        = st\<lparr>buffer := buffer st @ [segment],
              errors := errors st
                @ [AllOutOfOrderSegmentsBuffered (length (buffer st) + 1) maxOutOfOrder]\<rparr>)
   \<and> (rowOffset segment \<noteq> nextExpectedOffset st
      \<and> int (length (buffer st)) + 1 < maxOutOfOrder
    \<longrightarrow> onSegment maxOutOfOrder st segment = st\<lparr>buffer := buffer st @ [segment]\<rparr>)
   \<and> (rowOffset segment = nextExpectedOffset st
    \<longrightarrow> errors (onSegment maxOutOfOrder st segment) = errors st)
   \<and> errors (startOrderedSegmentStreamer 10 [seg 2, seg 0, seg 1, seg 4, seg 3]) = []
   \<and> errors (startOrderedSegmentStreamer 2 [seg 2, seg 0, seg 1, seg 4, seg 3]) = []
   \<and> errors (startOrderedSegmentStreamer 1 [seg 2, seg 0, seg 1, seg 4, seg 3])
       = [AllOutOfOrderSegmentsBuffered 1 1, AllOutOfOrderSegmentsBuffered 1 1]
   \<and> errors (startOrderedSegmentStreamer 2 [seg 1, seg 2, seg 0, seg 4, seg 3])
       = [AllOutOfOrderSegmentsBuffered 2 2]"
proof (intro conjI impI)
  assume "rowOffset segment \<noteq> nextExpectedOffset st
      \<and> int (length (buffer st)) + 1 \<ge> maxOutOfOrder"
  then show "onSegment maxOutOfOrder st segment
        = st\<lparr>buffer := buffer st @ [segment],
              errors := errors st
                @ [AllOutOfOrderSegmentsBuffered (length (buffer st) + 1) maxOutOfOrder]\<rparr>"
    by (simp add: onSegment_mismatch)
next
  assume "rowOffset segment \<noteq> nextExpectedOffset st
      \<and> int (length (buffer st)) + 1 < maxOutOfOrder"
  then show "onSegment maxOutOfOrder st segment = st\<lparr>buffer := buffer st @ [segment]\<rparr>"
    by (simp add: onSegment_mismatch)
next
  assume "rowOffset segment = nextExpectedOffset st"
  then show "errors (onSegment maxOutOfOrder st segment) = errors st"
    by (simp add: onSegment_def Let_def case_prod_beta emitLoop_errors)
next
  show "errors (startOrderedSegmentStreamer 10 [seg 2, seg 0, seg 1, seg 4, seg 3]) = []"
    by code_simp
next
  show "errors (startOrderedSegmentStreamer 2 [seg 2, seg 0, seg 1, seg 4, seg 3]) = []"
    by code_simp
next
  show "errors (startOrderedSegmentStreamer 1 [seg 2, seg 0, seg 1, seg 4, seg 3])
       = [AllOutOfOrderSegmentsBuffered 1 1, AllOutOfOrderSegmentsBuffered 1 1]"
    by code_simp
next
  show "errors (startOrderedSegmentStreamer 2 [seg 1, seg 2, seg 0, seg 4, seg 3])
       = [AllOutOfOrderSegmentsBuffered 2 2]"
    by code_simp
qed

theorem out_of_order_exhaustion_witness:
  "rowOffset (seg 2) \<noteq> nextExpectedOffset initStreamer
   \<and> int (length (buffer (initStreamer :: nat streamer))) + 1 \<ge> 1
   \<and> onSegment 1 initStreamer (seg 2)
       = initStreamer\<lparr>buffer := [seg 2], errors := [AllOutOfOrderSegmentsBuffered 1 1]\<rparr>
   \<and> int (length (buffer (initStreamer :: nat streamer))) + 1 < 10
   \<and> onSegment 10 initStreamer (seg 2) = initStreamer\<lparr>buffer := [seg 2]\<rparr>
   \<and> rowOffset (seg 0) = nextExpectedOffset initStreamer
   \<and> errors (onSegment 10 initStreamer (seg 0)) = []"
proof -
  have a: "rowOffset (seg 2) \<noteq> nextExpectedOffset initStreamer"
    by (simp add: seg_def initStreamer_def)
  have b: "rowOffset (seg 0) = nextExpectedOffset initStreamer"
    by (simp add: seg_def initStreamer_def)
  have l: "length (buffer (initStreamer :: nat streamer)) = 0"
    by (simp add: initStreamer_def)
  have e: "errors (initStreamer :: nat streamer) = []"
    by (simp add: initStreamer_def)
  from out_of_order_exhaustion [of "seg 2" initStreamer 1]
    out_of_order_exhaustion [of "seg 2" initStreamer 10]
    out_of_order_exhaustion [of "seg 0" initStreamer 10] a b
  show ?thesis by (simp add: l e) (simp add: initStreamer_def)
qed

subsection \<open>Emission order of the ordered streamer\<close>

lemma drain_prefix: "\<exists>r. B = drain off B @ r"
  by (induction B arbitrary: off) auto


lemma drain_length_le: "length (drain off B) \<le> length B"
  by (induction B arbitrary: off) auto














text \<open>
  The offsets have to increase strictly. A segment without rows shares its offset with
  its successor; when it arrives after that successor it is never the expected segment,
  stays in the buffer, sorts before every later segment and ends the inner loop at once:
  the rows of the later segments are not sent.
\<close>

lemma zero_row_segment_stalls:
  "spoolingRowsChannel
     (startOrderedSegmentStreamer 10
        [seg 0, \<lparr>rowOffset = 0, queryData = []\<rparr>, seg 1, seg 2])
   = [[0, 1]]
   \<and> map rowOffset (buffer
         (startOrderedSegmentStreamer 10
            [seg 0, \<lparr>rowOffset = 0, queryData = []\<rparr>, seg 1, seg 2]))
     = [0, 2, 4]"
  by code_simp



subsection \<open>Throttle tokens and resident segments\<close>

lemma length_removeAt: "i < length xs \<Longrightarrow> length (removeAt i xs) = length xs - 1"
  by (simp add: removeAt_def)

lemma dispatch_inv:
  assumes "throttleInvariant capacity s" and "dispatch capacity s = Some s'"
  shows "throttleInvariant capacity s'"
  using assms
  by (auto simp: dispatch_def throttleInvariant_def resident_def inFlight_def buffered_def
        Let_def split: list.splits if_splits)

lemma receive_inv:
  assumes "throttleInvariant capacity s" and "phase s = Receiving"
    and "i < length (spooledSegmentsToDecode s)"
  shows "throttleInvariant capacity
           (receive capacity x (s\<lparr>spooledSegmentsToDecode := removeAt i (spooledSegmentsToDecode s)\<rparr>))"
  using assms
  by (auto simp: receive_def throttleInvariant_def resident_def inFlight_def buffered_def
        sent_def pendingRelease_def length_removeAt Let_def)

lemma step_inv:
  assumes "throttleInvariant capacity s" and "step capacity a s = Some s'"
  shows "throttleInvariant capacity s'"
proof (cases a)
  case (Enqueue x)
  then show ?thesis using assms
    by (auto simp: step_def throttleInvariant_def resident_def inFlight_def buffered_def
          split: if_splits)
next
  case CloseInput
  then show ?thesis using assms
    by (auto simp: step_def throttleInvariant_def resident_def inFlight_def buffered_def
          split: if_splits)
next
  case Dispatch
  then show ?thesis using assms dispatch_inv by (simp add: step_def)
next
  case DispatcherReturn
  then show ?thesis using assms
    by (auto simp: step_def throttleInvariant_def resident_def inFlight_def buffered_def
          split: if_splits)
next
  case (Download i)
  then show ?thesis using assms
    by (auto simp: step_def throttleInvariant_def resident_def inFlight_def buffered_def
          length_removeAt split: if_splits)
next
  case (DownloadFail i)
  then show ?thesis using assms
    by (auto simp: step_def throttleInvariant_def resident_def inFlight_def buffered_def
          length_removeAt split: if_splits)
next
  case (Decode i)
  then show ?thesis using assms receive_inv [of capacity s i]
    by (auto simp: step_def split: if_splits)
next
  case (DecodeFail i)
  then show ?thesis using assms
    by (auto simp: step_def throttleInvariant_def resident_def inFlight_def buffered_def
          length_removeAt split: if_splits)
next
  case Emit
  then show ?thesis using assms
    by (auto simp: step_def throttleInvariant_def resident_def inFlight_def buffered_def
          sent_def pendingRelease_def loopCond_def sendRows_def
          split: if_splits streamerPhase.splits)
next
  case Release
  then show ?thesis using assms
    by (auto simp: step_def throttleInvariant_def resident_def inFlight_def buffered_def
          sent_def pendingRelease_def releaseSlot_def
          split: if_splits streamerPhase.splits)
next
  case Finish
  then show ?thesis using assms
    by (auto simp: step_def throttleInvariant_def resident_def inFlight_def buffered_def
          sent_def pendingRelease_def
          split: if_splits streamerPhase.splits)
qed


lemma run_inv:
  assumes "throttleInvariant capacity s" and "run capacity s schedule = Some s'"
  shows "throttleInvariant capacity s'"
  using assms
proof (induction schedule arbitrary: s)
  case Nil
  then show ?case by simp
next
  case (Cons a as)
  then obtain s1 where s1: "step capacity a s = Some s1" and r: "run capacity s1 as = Some s'"
    by (auto split: option.splits)
  from Cons.prems(1) s1 have "throttleInvariant capacity s1" by (rule step_inv)
  then show ?case using r by (rule Cons.IH)
qed

lemma step_counts:
  assumes "step capacity a s = Some s'"
  shows "admitted s' = admitted s + (if a = Dispatch then 1 else 0)
       \<and> released (orderedStreamer s')
           = released (orderedStreamer s) + (if a = Release then 1 else 0)
       \<and> length (spoolingRowsChannel (orderedStreamer s'))
           = length (spoolingRowsChannel (orderedStreamer s)) + (if a = Emit then 1 else 0)"
  using assms
  by (cases a)
     (auto simp: step_def dispatch_def receive_def sendRows_def releaseSlot_def Let_def
        split: if_splits list.splits streamerPhase.splits)

lemma run_counts:
  assumes "run capacity s schedule = Some s'"
  shows "admitted s' = admitted s + count_list schedule Dispatch
       \<and> released (orderedStreamer s')
           = released (orderedStreamer s) + count_list schedule Release
       \<and> length (spoolingRowsChannel (orderedStreamer s'))
           = length (spoolingRowsChannel (orderedStreamer s)) + count_list schedule Emit"
  using assms
proof (induction schedule arbitrary: s)
  case Nil
  then show ?case by simp
next
  case (Cons a as)
  then obtain s1 where s1: "step capacity a s = Some s1" and r: "run capacity s1 as = Some s'"
    by (auto split: option.splits)
  from step_counts [OF s1] Cons.IH [OF r] show ?case by simp
qed

lemma newPipeline_inv: "0 \<le> capacity \<Longrightarrow> throttleInvariant capacity newPipeline"
  by (simp add: throttleInvariant_def newPipeline_def initStreamer_def resident_def
        inFlight_def buffered_def sent_def pendingRelease_def)

lemma throttleCapacity_nonneg:
  "0 \<le> spoolingMaxOutOfOrderSegments stmt \<Longrightarrow> 0 < throttleCapacity stmt"
  by (simp add: throttleCapacity_def startSpoolingProtocolWorkers_def Let_def
        defaultallowedOutOfOrder_def)

text \<open>
  C3. In every state the pipeline reaches from its start, by any schedule of its
  goroutines: the dispatcher has sent one token on \<open>segmentThrottleCh\<close> for each segment
  it has admitted, before the switch on the segment's type; the streamer has received one
  token for each batch it has sent, the last one possibly still due, and the token it
  then receives is in the channel; the tokens in the channel are the admitted segments
  less the released ones, at most the capacity \<open>max_out_of_order_segments\<close>; and the
  segments resident in the pipeline, in flight or buffered with their rows not yet sent,
  are at most the tokens in the channel, so at most \<open>max_out_of_order_segments\<close>. A
  negative \<open>max_out_of_order_segments\<close> is excluded: \<open>make\<close> panics on it.
\<close>
theorem throttle_bounds_resident_segments:
  assumes "0 \<le> spoolingMaxOutOfOrderSegments stmt"
    and "run (throttleCapacity stmt) newPipeline schedule = Some s"
  shows "admitted s = count_list schedule Dispatch
       \<and> released (orderedStreamer s) = count_list schedule Release
       \<and> length (spoolingRowsChannel (orderedStreamer s)) = count_list schedule Emit
       \<and> segmentThrottleCh s + released (orderedStreamer s) = admitted s
       \<and> length (spoolingRowsChannel (orderedStreamer s))
           = released (orderedStreamer s) + pendingRelease (phase s)
       \<and> (0 < pendingRelease (phase s) \<longrightarrow> 0 < segmentThrottleCh s)
       \<and> int (segmentThrottleCh s) \<le> throttleCapacity stmt
       \<and> resident s \<le> segmentThrottleCh s
       \<and> int (resident s) \<le> throttleCapacity stmt"
proof -
  have "throttleInvariant (throttleCapacity stmt) (newPipeline :: 'a pipeline)"
    using throttleCapacity_nonneg [OF assms(1)] by (intro newPipeline_inv) simp
  then have i: "throttleInvariant (throttleCapacity stmt) s"
    using assms(2) by (rule run_inv)
  have c: "admitted s = count_list schedule Dispatch"
    "released (orderedStreamer s) = count_list schedule Release"
    "length (spoolingRowsChannel (orderedStreamer s)) = count_list schedule Emit"
    using run_counts [OF assms(2)] by (simp_all add: newPipeline_def initStreamer_def)
  show ?thesis
    using i unfolding c by (simp add: throttleInvariant_def c)
qed


theorem throttle_bounds_resident_segments_witness:
  "0 \<le> spoolingMaxOutOfOrderSegments
          \<lparr>spoolingMaxOutOfOrderSegments = 2, spoolingWorkerCount = 2\<rparr>
   \<and> run (throttleCapacity \<lparr>spoolingMaxOutOfOrderSegments = 2, spoolingWorkerCount = 2\<rparr>)
        newPipeline exampleSchedule \<noteq> None
   \<and> map_option admitted
        (run (throttleCapacity \<lparr>spoolingMaxOutOfOrderSegments = 2, spoolingWorkerCount = 2\<rparr>)
           newPipeline exampleSchedule) = Some 3
   \<and> map_option segmentThrottleCh
        (run (throttleCapacity \<lparr>spoolingMaxOutOfOrderSegments = 2, spoolingWorkerCount = 2\<rparr>)
           newPipeline exampleSchedule) = Some 2
   \<and> map_option resident
        (run (throttleCapacity \<lparr>spoolingMaxOutOfOrderSegments = 2, spoolingWorkerCount = 2\<rparr>)
           newPipeline exampleSchedule) = Some 1
   \<and> map_option (\<lambda>s. spoolingRowsChannel (orderedStreamer s))
        (run (throttleCapacity \<lparr>spoolingMaxOutOfOrderSegments = 2, spoolingWorkerCount = 2\<rparr>)
           newPipeline exampleSchedule) = Some [[0, 1], [2, 3]]
   \<and> run (throttleCapacity \<lparr>spoolingMaxOutOfOrderSegments = 2, spoolingWorkerCount = 2\<rparr>)
        newPipeline (take 6 exampleSchedule @ [Dispatch]) = None"
proof -
  let ?stmt = "\<lparr>spoolingMaxOutOfOrderSegments = 2, spoolingWorkerCount = 2\<rparr>"
  have n: "run (throttleCapacity ?stmt) newPipeline exampleSchedule \<noteq> None"
    by code_simp
  then obtain s where s: "run (throttleCapacity ?stmt) newPipeline exampleSchedule = Some s"
    by auto
  have a: "map_option admitted (run (throttleCapacity ?stmt) newPipeline exampleSchedule)
             = Some 3"
    by code_simp
  have t: "map_option segmentThrottleCh
             (run (throttleCapacity ?stmt) newPipeline exampleSchedule) = Some 2"
    by code_simp
  have r: "map_option resident (run (throttleCapacity ?stmt) newPipeline exampleSchedule)
             = Some 1"
    by code_simp
  have c: "map_option (\<lambda>s. spoolingRowsChannel (orderedStreamer s))
             (run (throttleCapacity ?stmt) newPipeline exampleSchedule) = Some [[0, 1], [2, 3]]"
    by code_simp
  have b: "run (throttleCapacity ?stmt) newPipeline (take 6 exampleSchedule @ [Dispatch]) = None"
    by code_simp
  from throttle_bounds_resident_segments [of ?stmt exampleSchedule s] s n a t r c b
  show ?thesis by simp
qed

subsection \<open>The streamer of the pipeline and the streamer run alone\<close>

text \<open>
  In a reachable state the streamer is never held at the receive from
  \<open>segmentThrottleCh\<close>: from the receive of a decoded segment there is a schedule of its
  own steps that brings it back to the receive on \<open>decodedSegments\<close>, and what it has
  done then is \<open>onSegment\<close> of that segment.
\<close>

lemma emit_schedule:
  assumes "phase s = Emitting c" and "throttleInvariant capacity s"
    and "st = orderedStreamer s"
  shows "\<exists>schedule s'. run capacity s schedule = Some s' \<and> phase s' = Receiving
           \<and> orderedStreamer s'
               = (fst (emitLoop st c))\<lparr>buffer := drop (snd (emitLoop st c))
                                                  (buffer (fst (emitLoop st c)))\<rparr>
           \<and> spooledSegmentsToDecode s' = spooledSegmentsToDecode s"
  using assms
proof (induction st c arbitrary: s rule: emitLoop.induct)
  case (1 st c)
  show ?case
  proof (cases "loopCond st c")
    case False
    define sF where
      "sF = s\<lparr>orderedStreamer := st\<lparr>buffer := drop c (buffer st)\<rparr>, phase := Receiving\<rparr>"
    have "step capacity Finish s = Some sF"
      using False "1.prems" by (simp add: step_def sF_def)
    then have "run capacity s [Finish] = Some sF"
      by simp
    moreover have "emitLoop st c = (st, c)"
      using False by (subst emitLoop.simps) simp
    moreover have "phase sF = Receiving" "orderedStreamer sF = st\<lparr>buffer := drop c (buffer st)\<rparr>"
      "spooledSegmentsToDecode sF = spooledSegmentsToDecode s"
      by (simp_all add: sF_def)
    ultimately show ?thesis
      by (intro exI [of _ "[Finish]"] exI [of _ sF]) simp
  next
    case True
    define s1 where "s1 = s\<lparr>orderedStreamer := sendRows st c, phase := Releasing c\<rparr>"
    have e: "step capacity Emit s = Some s1"
      using True "1.prems" by (simp add: step_def s1_def)
    have i1: "throttleInvariant capacity s1"
      using "1.prems"(2) e by (rule step_inv)
    then have t: "0 < segmentThrottleCh s1"
      by (simp add: throttleInvariant_def s1_def pendingRelease_def)
    define s2 where "s2 = s1\<lparr>segmentThrottleCh := segmentThrottleCh s1 - 1,
                              orderedStreamer := releaseSlot (sendRows st c) c,
                              phase := Emitting (c + 1)\<rparr>"
    have r: "step capacity Release s1 = Some s2"
      using t by (simp add: step_def s1_def s2_def)
    have i2: "throttleInvariant capacity s2"
      using i1 r by (rule step_inv)
    have p2: "phase s2 = Emitting (c + 1)" by (simp add: s2_def)
    have o2: "releaseSlot (sendRows st c) c = orderedStreamer s2" by (simp add: s2_def)
    from "1.IH" [OF True p2 i2 o2]
    obtain schedule s' where
      run': "run capacity s2 schedule = Some s'" and ph: "phase s' = Receiving"
      and os: "orderedStreamer s'
               = (fst (emitLoop (releaseSlot (sendRows st c) c) (c + 1)))
                   \<lparr>buffer := drop (snd (emitLoop (releaseSlot (sendRows st c) c) (c + 1)))
                      (buffer (fst (emitLoop (releaseSlot (sendRows st c) c) (c + 1))))\<rparr>"
      and td: "spooledSegmentsToDecode s' = spooledSegmentsToDecode s2"
      by blast
    have "run capacity s (Emit # Release # schedule) = Some s'"
      using e r run' by simp
    moreover have "emitLoop st c = emitLoop (releaseSlot (sendRows st c) c) (c + 1)"
      using True by (subst emitLoop.simps) simp
    moreover have "spooledSegmentsToDecode s2 = spooledSegmentsToDecode s"
      by (simp add: s2_def s1_def)
    ultimately show ?thesis using ph os td
      by (intro exI [of _ "Emit # Release # schedule"] exI [of _ s']) simp
  qed
qed

lemma decode_refines_onSegment:
  assumes "phase s = Receiving" and "i < length (spooledSegmentsToDecode s)"
    and "throttleInvariant capacity s"
  shows "\<exists>schedule s'. run capacity s (Decode i # schedule) = Some s' \<and> phase s' = Receiving
           \<and> orderedStreamer s'
               = onSegment capacity (orderedStreamer s) (spooledSegmentsToDecode s ! i)
           \<and> spooledSegmentsToDecode s' = removeAt i (spooledSegmentsToDecode s)"
proof -
  define x where "x = spooledSegmentsToDecode s ! i"
  define s1 where
    "s1 = receive capacity x (s\<lparr>spooledSegmentsToDecode := removeAt i (spooledSegmentsToDecode s)\<rparr>)"
  have d: "step capacity (Decode i) s = Some s1"
    using assms(1,2) by (simp add: step_def s1_def x_def)
  have i1: "throttleInvariant capacity s1"
    using assms(3) d by (rule step_inv)
  show ?thesis
  proof (cases "nextExpectedOffset (orderedStreamer s) = rowOffset x")
    case False
    then have "phase s1 = Receiving"
      and "orderedStreamer s1 = onSegment capacity (orderedStreamer s) x"
      and "spooledSegmentsToDecode s1 = removeAt i (spooledSegmentsToDecode s)"
      using assms(1) by (simp_all add: s1_def receive_def onSegment_def Let_def)
    then show ?thesis using d
      by (intro exI [of _ "[]"] exI [of _ s1]) (simp add: x_def)
  next
    case True
    define st2 where
      "st2 = (orderedStreamer s)\<lparr>buffer := sort_key rowOffset (buffer (orderedStreamer s) @ [x])\<rparr>"
    have p1: "phase s1 = Emitting 0" and o1: "st2 = orderedStreamer s1"
      and t1: "spooledSegmentsToDecode s1 = removeAt i (spooledSegmentsToDecode s)"
      using True by (simp_all add: s1_def receive_def Let_def st2_def)
    from emit_schedule [OF p1 i1 o1]
    obtain schedule s' where
      run': "run capacity s1 schedule = Some s'" and ph: "phase s' = Receiving"
      and os: "orderedStreamer s'
               = (fst (emitLoop st2 0))\<lparr>buffer := drop (snd (emitLoop st2 0))
                                                  (buffer (fst (emitLoop st2 0)))\<rparr>"
      and td: "spooledSegmentsToDecode s' = spooledSegmentsToDecode s1"
      by blast
    have "onSegment capacity (orderedStreamer s) x
            = (fst (emitLoop st2 0))\<lparr>buffer := drop (snd (emitLoop st2 0))
                                                  (buffer (fst (emitLoop st2 0)))\<rparr>"
      using True by (simp add: onSegment_def Let_def st2_def case_prod_beta)
    then show ?thesis using d run' ph os td t1
      by (intro exI [of _ schedule] exI [of _ s']) (simp add: x_def)
  qed
qed

end
